theory Spec2Isabelle
  imports Main "HOL-Library.Sublist"
begin

text \<open>
  A shallow embedding of the DID-document manager (\<^verbatim>\<open>did-document.ts\<close>), of
  \<^verbatim>\<open>MessagingEngineVerida.send\<close>, of \<^verbatim>\<open>Context.getDatabaseEngine\<close> and of
  \<^verbatim>\<open>AutoAccount.getAuthContext\<close>. Objects are records, optional properties are options, a
  method takes the object and returns it as the call leaves it, and an exception is the
  left summand of the result. Primitives of other packages (hashing, signing, the
  resolver, the engines) are parameters of the functions that call them.
\<close>

section \<open>Strings\<close>

text \<open>
  Strings are lists of characters. \<^verbatim>\<open>String.prototype.toLowerCase\<close> is a built-in of the
  language; the functions that call it take it as the parameter \<open>toLowerCase\<close>, so that
  nothing is assumed of what it does beyond ASCII. On ASCII text it is \<open>asciiLowerCase\<close>:
  the letters \<^verbatim>\<open>A\<close>..\<^verbatim>\<open>Z\<close> go to \<^verbatim>\<open>a\<close>..\<^verbatim>\<open>z\<close> and every other character stays.
\<close>

definition isUpperAscii :: "char \<Rightarrow> bool" where
  "isUpperAscii c = (65 \<le> (of_char c :: nat) \<and> (of_char c :: nat) \<le> 90)"

definition toLowerChar :: "char \<Rightarrow> char" where
  "toLowerChar c = (if isUpperAscii c then char_of ((of_char c :: nat) + 32) else c)"

definition asciiLowerCase :: "string \<Rightarrow> string" where
  "asciiLowerCase s = map toLowerChar s"

definition asciiString :: "string \<Rightarrow> bool" where
  "asciiString s = list_all (\<lambda>c. (of_char c :: nat) < 128) s"

text \<open>
  Two characters are the same letter when they are equal or one is the upper-case form of
  the other; two strings differ only in letter case when they agree position by position
  up to that.
\<close>

definition sameLetter :: "char \<Rightarrow> char \<Rightarrow> bool" where
  "sameLetter a b =
     (a = b
      \<or> (isUpperAscii a \<and> (of_char b :: nat) = of_char a + 32)
      \<or> (isUpperAscii b \<and> (of_char a :: nat) = of_char b + 32))"

definition differOnlyInCase :: "string \<Rightarrow> string \<Rightarrow> bool" where
  "differOnlyInCase s t = list_all2 sameLetter s t"

section \<open>Context hash\<close>

text \<open>
  \<^verbatim>\<open>DIDDocument.generateContextHash(did, contextName)\<close>: lower-cases the DID and hashes
  \<^verbatim>\<open>`${did}/${contextName}`\<close>. The hash primitive (\<^verbatim>\<open>EncryptionUtils.hash\<close>) belongs to
  another package and is a parameter, as the built-in \<open>toLowerCase\<close> is.
\<close>

definition generateContextHash ::
  "(string \<Rightarrow> string) \<Rightarrow> (string \<Rightarrow> string) \<Rightarrow> string \<Rightarrow> string \<Rightarrow> string" where
  "generateContextHash toLowerCase hash did contextName =
     (let did' = toLowerCase did in hash (did' @ ''/'' @ contextName))"

section \<open>DID documents\<close>

text \<open>
  Errors are values. \<open>TypeError\<close> is what JavaScript raises when a method is called on
  \<^verbatim>\<open>undefined\<close>; \<open>Error\<close> carries the message of a \<^verbatim>\<open>throw new Error(...)\<close>.
  \<open>NotModelled\<close> marks the inputs on which this embedding does not follow the source (a
  regular expression that is more than literal text, a key that names a member of
  \<^verbatim>\<open>Object.prototype\<close>); no theorem below draws a conclusion from it.
\<close>

datatype jsError = TypeError | Error string | NotModelled

record VerificationMethod =
  id_vm :: string
  type_vm :: string
  controller_vm :: string
  publicKeyHex :: "string option"

record ServiceEndpoint =
  id_svc :: string
  type_svc :: string
  serviceEndpoint :: string

text \<open>Entries of \<^verbatim>\<open>assertionMethod\<close> and \<^verbatim>\<open>keyAgreement\<close> are \<^verbatim>\<open>string | VerificationMethod\<close>.\<close>

datatype MethodRef = RefString string | RefMethod VerificationMethod

record Proof =
  type_proof :: string
  verificationMethod_proof :: string
  proofPurpose :: string
  proofValue :: string

text \<open>
  \<^verbatim>\<open>DIDDocumentStruct\<close>: the four collections and the proof are optional (the source tests
  each of them for absence); \<open>None\<close> is an absent property.
\<close>

record DIDDocumentStruct =
  id_doc :: string
  controller :: string
  verificationMethod :: "VerificationMethod list option"
  assertionMethod :: "MethodRef list option"
  keyAgreement :: "MethodRef list option"
  service :: "ServiceEndpoint list option"
  proof_doc :: "Proof option"

text \<open>The class \<^verbatim>\<open>DIDDocument\<close>: the document it holds and the recorded errors.\<close>

record DIDDocument =
  doc :: DIDDocumentStruct
  errors :: "string list"

text \<open>
  Modelled from the spec: the enum \<^verbatim>\<open>EndpointType\<close> and the interface \<^verbatim>\<open>Endpoints\<close> are
  declared in \<^verbatim>\<open>./interfaces\<close>, which is not among the sources. The spec's scenario gives the
  service ids \<^verbatim>\<open>...#database\<close> and \<^verbatim>\<open>...#messaging\<close>; each service is \<^verbatim>\<open>{type, endpointUri}\<close>,
  storage and notification being optional.
\<close>

datatype EndpointType = DATABASE | MESSAGING | STORAGE | NOTIFICATION

fun endpointTypeString :: "EndpointType \<Rightarrow> string" where
  "endpointTypeString DATABASE = ''database''"
| "endpointTypeString MESSAGING = ''messaging''"
| "endpointTypeString STORAGE = ''storage''"
| "endpointTypeString NOTIFICATION = ''notification''"

record EndpointConfig =
  type_ep :: string
  endpointUri :: string

record Endpoints =
  database :: EndpointConfig
  messaging :: EndpointConfig
  storage :: "EndpointConfig option"
  notification :: "EndpointConfig option"

text \<open>What \<^verbatim>\<open>keyring.getKeys()\<close> resolves to, as far as \<^verbatim>\<open>addContext\<close> reads it.\<close>

record KeyringKeys =
  signPublicKeyHex :: string
  asymPublicKeyHex :: string

subsection \<open>Matching ids against the context pattern\<close>

text \<open>
  \<^verbatim>\<open>removeContext\<close> builds the string \<^verbatim>\<open>`${this.doc.id}\\?context=${contextHash}`\<close> and hands
  it to \<^verbatim>\<open>String.prototype.match\<close>, which compiles it as a regular expression and searches
  for it anywhere in the id. The embedding covers the patterns that are literal text:
  ordinary characters, and metacharacters escaped by a backslash. \<open>regexLiteral\<close> reads
  such a pattern back as the text it matches and gives \<open>None\<close> for any other pattern.
\<close>

definition backslash :: char where
  "backslash = CHR 0x5C"

definition regexSpecial :: "char \<Rightarrow> bool" where
  "regexSpecial c = (c = backslash \<or> c \<in> set ''^$.|?*+()[]{}'')"

fun regexLiteral :: "string \<Rightarrow> string option" where
  "regexLiteral [] = Some []"
| "regexLiteral [c] = (if regexSpecial c then None else Some [c])"
| "regexLiteral (c # d # ds) =
     (if c = backslash then
        (if regexSpecial d then map_option ((#) d) (regexLiteral ds) else None)
      else if regexSpecial c then None
      else map_option ((#) c) (regexLiteral (d # ds)))"

definition contextDidPattern :: "string \<Rightarrow> string \<Rightarrow> string" where
  "contextDidPattern did contextHash = did @ [backslash] @ ''?context='' @ contextHash"

text \<open>
  A string without metacharacters, and the text the context pattern stands for when the
  DID and the hash are such strings.
\<close>

definition plainText :: "string \<Rightarrow> bool" where
  "plainText s = list_all (\<lambda>c. \<not> regexSpecial c) s"

definition contextDid :: "string \<Rightarrow> string \<Rightarrow> string" where
  "contextDid did contextHash = did @ ''?context='' @ contextHash"

text \<open>The template \<^verbatim>\<open>`${this.doc.id}?context=${contextHash}#${fragment}`\<close>.\<close>

definition contextEntryId :: "string \<Rightarrow> string \<Rightarrow> string \<Rightarrow> string" where
  "contextEntryId did contextHash fragment = did @ ''?context='' @ contextHash @ ''#'' @ fragment"

definition orEmpty :: "'a list option \<Rightarrow> 'a list" where
  "orEmpty xs = (case xs of None \<Rightarrow> [] | Some ys \<Rightarrow> ys)"

subsection \<open>Construction and import\<close>

datatype DocArg = DocStruct DIDDocumentStruct | DocString string

definition constructor ::
  "(string \<Rightarrow> string) \<Rightarrow> DocArg \<Rightarrow> string option \<Rightarrow> jsError + DIDDocument" where
  "constructor toLowerCase arg publicKeyHex' =
     (case arg of
        DocString s \<Rightarrow>
          (case publicKeyHex' of
             None \<Rightarrow>
               Inl (Error ''Unable to create DID Document. Invalid or non-existent public key.'')
           | Some k \<Rightarrow>
               if k = [] \<or> length k \<noteq> 132
               then Inl (Error
                      ''Unable to create DID Document. Invalid or non-existent public key.'')
               else
                 let did = toLowerCase s;
                     d = \<lparr>id_doc = did, controller = did,
                          verificationMethod = None, assertionMethod = None,
                          keyAgreement = None, service = None, proof_doc = None\<rparr>;
                     d = d\<lparr>assertionMethod := Some [RefString (id_doc d)]\<rparr>;
                     d = d\<lparr>verificationMethod := Some [\<lparr>id_vm = id_doc d,
                            type_vm = ''EcdsaSecp256k1VerificationKey2019'',
                            controller_vm = id_doc d, publicKeyHex = Some k\<rparr>]\<rparr>
                 in Inr \<lparr>doc = d, errors = []\<rparr>)
      | DocStruct d \<Rightarrow> Inr \<lparr>doc = d\<lparr>id_doc := toLowerCase (id_doc d)\<rparr>, errors = []\<rparr>)"

definition getErrors :: "DIDDocument \<Rightarrow> string list" where
  "getErrors this = errors this"

definition import_doc ::
  "(string \<Rightarrow> string) \<Rightarrow> DIDDocument \<Rightarrow> DIDDocumentStruct \<Rightarrow> DIDDocument" where
  "import_doc toLowerCase this d = this\<lparr>doc := d\<lparr>id_doc := toLowerCase (id_doc d)\<rparr>\<rparr>"

subsection \<open>Adding and removing context records\<close>

definition addContextService ::
  "DIDDocument \<Rightarrow> string \<Rightarrow> EndpointType \<Rightarrow> string \<Rightarrow> string \<Rightarrow> DIDDocument" where
  "addContextService this contextHash endpointType serviceType endpointUri' =
     (let d = doc this in
      this\<lparr>doc := d\<lparr>service := Some (orEmpty (service d) @
         [\<lparr>id_svc = contextEntryId (id_doc d) contextHash (endpointTypeString endpointType),
           type_svc = serviceType, serviceEndpoint = endpointUri'\<rparr>])\<rparr>\<rparr>)"

definition addContextSignKey :: "DIDDocument \<Rightarrow> string \<Rightarrow> string \<Rightarrow> DIDDocument" where
  "addContextSignKey this contextHash pk =
     (let d = doc this in
      this\<lparr>doc := d\<lparr>
        verificationMethod := Some (orEmpty (verificationMethod d) @
          [\<lparr>id_vm = contextEntryId (id_doc d) contextHash ''sign'',
            type_vm = ''EcdsaSecp256k1VerificationKey2019'',
            controller_vm = id_doc d, publicKeyHex = Some pk\<rparr>]),
        assertionMethod := Some (orEmpty (assertionMethod d) @
          [RefString (contextEntryId (id_doc d) contextHash ''sign'')])\<rparr>\<rparr>)"

definition addContextAsymKey :: "DIDDocument \<Rightarrow> string \<Rightarrow> string \<Rightarrow> DIDDocument" where
  "addContextAsymKey this contextHash pk =
     (let d = doc this in
      this\<lparr>doc := d\<lparr>
        verificationMethod := Some (orEmpty (verificationMethod d) @
          [\<lparr>id_vm = contextEntryId (id_doc d) contextHash ''asym'',
            type_vm = ''Curve25519EncryptionPublicKey'',
            controller_vm = id_doc d, publicKeyHex = Some pk\<rparr>]),
        keyAgreement := Some (orEmpty (keyAgreement d) @
          [RefString (contextEntryId (id_doc d) contextHash ''asym'')])\<rparr>\<rparr>)"

text \<open>
  \<^verbatim>\<open>removeContext\<close> returns its result together with the object as it leaves it: the four
  filters run one after the other, and a \<^verbatim>\<open>TypeError\<close> on an absent collection leaves the
  earlier ones already filtered.
\<close>

definition removeContext ::
  "(string \<Rightarrow> string) \<Rightarrow> (string \<Rightarrow> string) \<Rightarrow> DIDDocument \<Rightarrow> string \<Rightarrow> (jsError + bool) \<times> DIDDocument" where
  "removeContext toLowerCase hash this contextName =
     (let d = doc this;
          contextHash = generateContextHash toLowerCase hash (id_doc d) contextName in
      case verificationMethod d of
        None \<Rightarrow> (Inr False, this\<lparr>errors := [''No verification method specified'']\<rparr>)
      | Some vms \<Rightarrow>
          (case regexLiteral (contextDidPattern (id_doc d) contextHash) of
             None \<Rightarrow> (Inl NotModelled, this)
           | Some lit \<Rightarrow>
               if find (\<lambda>entry. sublist lit (id_vm entry)) vms = None
               then (Inr False,
                     this\<lparr>errors := [''Unable to locate verification method for this context'']\<rparr>)
               else
                 let d1 = d\<lparr>verificationMethod :=
                            Some (filter (\<lambda>entry. \<not> sublist lit (id_vm entry)) vms)\<rparr> in
                 (case assertionMethod d1 of
                    None \<Rightarrow> (Inl TypeError, this\<lparr>doc := d1\<rparr>)
                  | Some ams \<Rightarrow>
                      let d2 = d1\<lparr>assertionMethod := Some (filter (\<lambda>entry.
                                 entry \<noteq> RefString (contextEntryId (id_doc d) contextHash ''sign''))
                                 ams)\<rparr> in
                      (case keyAgreement d2 of
                         None \<Rightarrow> (Inl TypeError, this\<lparr>doc := d2\<rparr>)
                       | Some kas \<Rightarrow>
                           let d3 = d2\<lparr>keyAgreement := Some (filter (\<lambda>entry.
                                      entry \<noteq> RefString
                                        (contextEntryId (id_doc d) contextHash ''asym''))
                                      kas)\<rparr> in
                           (case service d3 of
                              None \<Rightarrow> (Inl TypeError, this\<lparr>doc := d3\<rparr>)
                            | Some svcs \<Rightarrow>
                                (Inr True, this\<lparr>doc := d3\<lparr>service := Some (filter
                                   (\<lambda>entry. \<not> sublist lit (id_svc entry)) svcs)\<rparr>\<rparr>))))))"

text \<open>
  \<^verbatim>\<open>addContext\<close>: the keys are those \<^verbatim>\<open>keyring.getKeys()\<close> resolves to. An exception of the
  inner \<^verbatim>\<open>removeContext\<close> rejects the promise before anything is added.
\<close>

definition addContext ::
  "(string \<Rightarrow> string) \<Rightarrow> (string \<Rightarrow> string) \<Rightarrow> DIDDocument \<Rightarrow> string \<Rightarrow> KeyringKeys \<Rightarrow> Endpoints
     \<Rightarrow> (jsError + unit) \<times> DIDDocument" where
  "addContext toLowerCase hash this contextName keys endpoints =
     (case removeContext toLowerCase hash this contextName of
        (Inl e, this0) \<Rightarrow> (Inl e, this0)
      | (Inr _, this0) \<Rightarrow>
          let contextHash = generateContextHash toLowerCase hash (id_doc (doc this0)) contextName;
              this1 = addContextService this0 contextHash DATABASE
                        (type_ep (database endpoints)) (endpointUri (database endpoints));
              this2 = addContextService this1 contextHash MESSAGING
                        (type_ep (messaging endpoints)) (endpointUri (messaging endpoints));
              this3 = (case storage endpoints of
                         None \<Rightarrow> this2
                       | Some e \<Rightarrow> addContextService this2 contextHash STORAGE
                                    (type_ep e) (endpointUri e));
              this4 = (case notification endpoints of
                         None \<Rightarrow> this3
                       | Some e \<Rightarrow> addContextService this3 contextHash NOTIFICATION
                                    (type_ep e) (endpointUri e));
              this5 = addContextSignKey this4 contextHash (signPublicKeyHex keys);
              this6 = addContextAsymKey this5 contextHash (asymPublicKeyHex keys)
          in (Inr (), this6))"

definition locateServiceEndpoint ::
  "(string \<Rightarrow> string) \<Rightarrow> (string \<Rightarrow> string) \<Rightarrow> DIDDocument \<Rightarrow> string \<Rightarrow> EndpointType
     \<Rightarrow> jsError + ServiceEndpoint option" where
  "locateServiceEndpoint toLowerCase hash this contextName endpointType =
     (let d = doc this;
          contextHash = generateContextHash toLowerCase hash (id_doc d) contextName;
          expectedEndpointId =
            contextEntryId (id_doc d) contextHash (endpointTypeString endpointType) in
      case service d of
        None \<Rightarrow> Inl TypeError
      | Some svcs \<Rightarrow> Inr (find (\<lambda>entry. id_svc entry = expectedEndpointId) svcs))"

subsection \<open>Document proofs\<close>

text \<open>
  The private key is a \<^verbatim>\<open>Uint8Array\<close> or a string. \<^verbatim>\<open>signProof\<close> starts with
  \<^verbatim>\<open>if (privateKey == 'string') privateKey = new Uint8Array(Buffer.from(privateKey.substr(2),'hex'))\<close>:
  the comparison is with the text \<^verbatim>\<open>'string'\<close> itself, and an object is compared through
  its \<^verbatim>\<open>toString()\<close>. A plain \<^verbatim>\<open>Uint8Array\<close> (\<open>KeyBytes\<close>) renders as its decimal bytes
  (\<^verbatim>\<open>"1,2,3"\<close>), which is never that text. A Node \<^verbatim>\<open>Buffer\<close> (\<open>KeyBuffer\<close>), which is a
  \<^verbatim>\<open>Uint8Array\<close> too, renders as the UTF-8 text of its bytes: the buffer whose bytes spell
  \<^verbatim>\<open>string\<close> takes the branch, and \<^verbatim>\<open>substr\<close>, which a buffer does not have, raises a
  \<^verbatim>\<open>TypeError\<close>. The string \<^verbatim>\<open>'string'\<close> takes the branch and is converted. Every other
  key, a hex string included, reaches \<^verbatim>\<open>signData\<close> as it was given.
  \<^verbatim>\<open>Buffer.from(s, 'hex')\<close> decodes pairs of hex digits up to the first pair that is not
  hexadecimal.
\<close>

datatype PrivateKey = KeyBytes "nat list" | KeyBuffer "nat list" | KeyString string

definition hexDigit :: "char \<Rightarrow> nat option" where
  "hexDigit c =
     (let n = (of_char c :: nat) in
      if 48 \<le> n \<and> n \<le> 57 then Some (n - 48)
      else if 97 \<le> n \<and> n \<le> 102 then Some (n - 87)
      else if 65 \<le> n \<and> n \<le> 70 then Some (n - 55)
      else None)"

fun bufferFromHex :: "string \<Rightarrow> nat list" where
  "bufferFromHex (a # b # rest) =
     (case (hexDigit a, hexDigit b) of
        (Some x, Some y) \<Rightarrow> (16 * x + y) # bufferFromHex rest
      | _ \<Rightarrow> [])"
| "bufferFromHex _ = []"

definition signingKey :: "PrivateKey \<Rightarrow> jsError + PrivateKey" where
  "signingKey privateKey =
     (case privateKey of
        KeyString s \<Rightarrow>
          if s = ''string'' then Inr (KeyBytes (bufferFromHex (drop 2 s))) else Inr privateKey
      | KeyBuffer bytes \<Rightarrow>
          if bytes = map of_char ''string'' then Inl TypeError else Inr privateKey
      | KeyBytes _ \<Rightarrow> Inr privateKey)"

definition getProofData :: "DIDDocument \<Rightarrow> DIDDocumentStruct" where
  "getProofData this = (doc this)\<lparr>proof_doc := None\<rparr>"

text \<open>
  \<^verbatim>\<open>EncryptionUtils.signData\<close> and \<^verbatim>\<open>EncryptionUtils.verifySig\<close> belong to another package
  and are parameters: \<open>signData\<close> yields a signature or raises, \<open>utilsVerifySig\<close> answers
  whether a signature over the data verifies under a public key.
\<close>

definition signProof ::
  "(DIDDocumentStruct \<Rightarrow> PrivateKey \<Rightarrow> jsError + string) \<Rightarrow> DIDDocument \<Rightarrow> PrivateKey
     \<Rightarrow> (jsError + unit) \<times> DIDDocument" where
  "signProof signData this privateKey =
     (case signingKey privateKey of
        Inl e \<Rightarrow> (Inl e, this)
      | Inr privateKey' \<Rightarrow>
          let proofData = getProofData this in
          (case signData proofData privateKey' of
             Inl e \<Rightarrow> (Inl e, this)
           | Inr signature \<Rightarrow>
               (Inr (), this\<lparr>doc := (doc this)\<lparr>proof_doc := Some
                  \<lparr>type_proof = ''EcdsaSecp256k1VerificationKey2019'',
                   verificationMethod_proof = id_doc (doc this),
                   proofPurpose = ''assertionMethod'',
                   proofValue = signature\<rparr>\<rparr>\<rparr>)))"

definition verifySig ::
  "('d \<Rightarrow> string \<Rightarrow> string \<Rightarrow> bool) \<Rightarrow> DIDDocument \<Rightarrow> 'd \<Rightarrow> string \<Rightarrow> jsError + bool" where
  "verifySig utilsVerifySig this data signature =
     (case verificationMethod (doc this) of
        None \<Rightarrow> Inl TypeError
      | Some vms \<Rightarrow>
          (case find (\<lambda>entry. id_vm entry = id_doc (doc this)) vms of
             None \<Rightarrow> Inr False
           | Some vm \<Rightarrow>
               (case publicKeyHex vm of
                  None \<Rightarrow> Inr False
                | Some k \<Rightarrow> if k = [] then Inr False
                            else Inr (utilsVerifySig data signature k))))"

definition verifyProof ::
  "(DIDDocumentStruct \<Rightarrow> string \<Rightarrow> string \<Rightarrow> bool) \<Rightarrow> DIDDocument \<Rightarrow> jsError + bool" where
  "verifyProof utilsVerifySig this =
     (case proof_doc (doc this) of
        None \<Rightarrow> Inr False
      | Some p \<Rightarrow>
          let signature = proofValue p;
              proofData = getProofData this in
          verifySig utilsVerifySig this proofData signature)"

subsection \<open>What a context contributes\<close>

text \<open>The entries that addContext appends.\<close>

definition contextServices :: "string \<Rightarrow> string \<Rightarrow> Endpoints \<Rightarrow> ServiceEndpoint list" where
  "contextServices did h endpoints =
     [\<lparr>id_svc = contextEntryId did h ''database'', type_svc = type_ep (database endpoints),
        serviceEndpoint = endpointUri (database endpoints)\<rparr>,
      \<lparr>id_svc = contextEntryId did h ''messaging'', type_svc = type_ep (messaging endpoints),
        serviceEndpoint = endpointUri (messaging endpoints)\<rparr>]
     @ (case storage endpoints of None \<Rightarrow> []
        | Some e \<Rightarrow> [\<lparr>id_svc = contextEntryId did h ''storage'', type_svc = type_ep e,
                       serviceEndpoint = endpointUri e\<rparr>])
     @ (case notification endpoints of None \<Rightarrow> []
        | Some e \<Rightarrow> [\<lparr>id_svc = contextEntryId did h ''notification'', type_svc = type_ep e,
                       serviceEndpoint = endpointUri e\<rparr>])"

definition contextMethods :: "string \<Rightarrow> string \<Rightarrow> KeyringKeys \<Rightarrow> VerificationMethod list" where
  "contextMethods did h keys =
     [\<lparr>id_vm = contextEntryId did h ''sign'', type_vm = ''EcdsaSecp256k1VerificationKey2019'',
        controller_vm = did, publicKeyHex = Some (signPublicKeyHex keys)\<rparr>,
      \<lparr>id_vm = contextEntryId did h ''asym'', type_vm = ''Curve25519EncryptionPublicKey'',
        controller_vm = did, publicKeyHex = Some (asymPublicKeyHex keys)\<rparr>]"

definition withContext ::
  "(string \<Rightarrow> string) \<Rightarrow> (string \<Rightarrow> string) \<Rightarrow> DIDDocumentStruct \<Rightarrow> string \<Rightarrow> KeyringKeys \<Rightarrow> Endpoints
     \<Rightarrow> DIDDocumentStruct" where
  "withContext toLowerCase hash d contextName keys endpoints =
     (let h = generateContextHash toLowerCase hash (id_doc d) contextName in
      d\<lparr>verificationMethod :=
           Some (orEmpty (verificationMethod d) @ contextMethods (id_doc d) h keys),
         assertionMethod :=
           Some (orEmpty (assertionMethod d) @ [RefString (contextEntryId (id_doc d) h ''sign'')]),
         keyAgreement :=
           Some (orEmpty (keyAgreement d) @ [RefString (contextEntryId (id_doc d) h ''asym'')]),
         service := Some (orEmpty (service d) @ contextServices (id_doc d) h endpoints)\<rparr>)"

definition contextAbsent ::
  "(string \<Rightarrow> string) \<Rightarrow> (string \<Rightarrow> string) \<Rightarrow> DIDDocumentStruct \<Rightarrow> string \<Rightarrow> bool" where
  "contextAbsent toLowerCase hash d contextName =
     (let h = generateContextHash toLowerCase hash (id_doc d) contextName;
          lit = contextDid (id_doc d) h in
      list_all (\<lambda>entry. \<not> sublist lit (id_vm entry)) (orEmpty (verificationMethod d))
      \<and> list_all (\<lambda>entry. \<not> sublist lit (id_svc entry)) (orEmpty (service d))
      \<and> RefString (contextEntryId (id_doc d) h ''sign'') \<notin> set (orEmpty (assertionMethod d))
      \<and> RefString (contextEntryId (id_doc d) h ''asym'') \<notin> set (orEmpty (keyAgreement d)))"

definition suppliedEndpoint :: "Endpoints \<Rightarrow> EndpointType \<Rightarrow> EndpointConfig option" where
  "suppliedEndpoint endpoints endpointType =
     (case endpointType of
        DATABASE \<Rightarrow> Some (database endpoints)
      | MESSAGING \<Rightarrow> Some (messaging endpoints)
      | STORAGE \<Rightarrow> storage endpoints
      | NOTIFICATION \<Rightarrow> notification endpoints)"

subsection \<open>Example values\<close>

text \<open>
  A document as the constructor makes it for the DID \<^verbatim>\<open>did:vda:0xABC\<close> and a public key of
  132 characters, the keys of a keyring and a set of endpoints. List reversal stands in
  for the hash primitive where a concrete one is needed.
\<close>

definition examplePublicKey :: string where
  "examplePublicKey = ''0x04'' @ replicate 128 (CHR ''a'')"

definition exampleDocument :: DIDDocument where
  "exampleDocument =
     \<lparr>doc = \<lparr>id_doc = ''did:vda:0xabc'', controller = ''did:vda:0xabc'',
            verificationMethod = Some [\<lparr>id_vm = ''did:vda:0xabc'',
               type_vm = ''EcdsaSecp256k1VerificationKey2019'',
               controller_vm = ''did:vda:0xabc'', publicKeyHex = Some examplePublicKey\<rparr>],
            assertionMethod = Some [RefString ''did:vda:0xabc''],
            keyAgreement = None, service = None, proof_doc = None\<rparr>,
      errors = []\<rparr>"

definition exampleKeys :: KeyringKeys where
  "exampleKeys = \<lparr>signPublicKeyHex = ''0x970c'', asymPublicKeyHex = ''0x270c''\<rparr>"

definition exampleEndpoints :: Endpoints where
  "exampleEndpoints =
     \<lparr>database = \<lparr>type_ep = ''VeridaDatabase'', endpointUri = ''https://db.example/''\<rparr>,
      messaging = \<lparr>type_ep = ''VeridaMessage'', endpointUri = ''https://msg.example/''\<rparr>,
      storage = None,
      notification = Some \<lparr>type_ep = ''VeridaNotification'',
                            endpointUri = ''https://ping.example/''\<rparr>\<rparr>"

text \<open>
  The example document with the context \<^verbatim>\<open>My App\<close> added; the same with the context's
  \<^verbatim>\<open>#asym\<close> key listed under \<^verbatim>\<open>assertionMethod\<close> too; the example document with a database
  service entry of the context and none of its keys; and a document struct that spells
  the DID with capitals.
\<close>

definition exampleLinked :: DIDDocument where
  "exampleLinked = snd (addContext asciiLowerCase rev exampleDocument ''My App'' exampleKeys exampleEndpoints)"

definition exampleCrossListed :: DIDDocument where
  "exampleCrossListed =
     exampleLinked\<lparr>doc := (doc exampleLinked)\<lparr>assertionMethod :=
       Some (orEmpty (assertionMethod (doc exampleLinked)) @
         [RefString (contextEntryId ''did:vda:0xabc''
            (generateContextHash asciiLowerCase rev ''did:vda:0xabc'' ''My App'') ''asym'')])\<rparr>\<rparr>"

definition exampleOrphan :: DIDDocument where
  "exampleOrphan =
     addContextService exampleDocument (generateContextHash asciiLowerCase rev ''did:vda:0xabc'' ''My App'')
       DATABASE ''VeridaDatabase'' ''https://old.example/''"

text \<open>The example document after \<^verbatim>\<open>addContextSignKey\<close> alone.\<close>

definition exampleSignOnly :: DIDDocument where
  "exampleSignOnly =
     addContextSignKey exampleDocument (generateContextHash asciiLowerCase rev ''did:vda:0xabc'' ''My App'')
       ''0x970c''"

definition exampleChecksumStruct :: DIDDocumentStruct where
  "exampleChecksumStruct =
     \<lparr>id_doc = ''did:vda:0xABC'', controller = ''did:vda:0xABC'',
      verificationMethod = Some [\<lparr>id_vm = ''did:vda:0xABC'',
         type_vm = ''EcdsaSecp256k1VerificationKey2019'',
         controller_vm = ''did:vda:0xABC'', publicKeyHex = Some examplePublicKey\<rparr>],
      assertionMethod = Some [RefString ''did:vda:0xABC''],
      keyAgreement = None, service = None, proof_doc = None\<rparr>"

text \<open>
  A signature primitive for the examples: every signing yields the one signature
  \<^verbatim>\<open>0x5167\<close>, and it verifies for the proof data of the example document under the
  example public key only.
\<close>

definition exampleSignData :: "DIDDocumentStruct \<Rightarrow> PrivateKey \<Rightarrow> jsError + string" where
  "exampleSignData d k = Inr ''0x5167''"

definition exampleVerifySig :: "DIDDocumentStruct \<Rightarrow> string \<Rightarrow> string \<Rightarrow> bool" where
  "exampleVerifySig d s k =
     (d = getProofData exampleDocument \<and> s = ''0x5167'' \<and> k = examplePublicKey)"

text \<open>The example document with its root key published in another form than hex.\<close>

definition exampleKeylessDocument :: DIDDocument where
  "exampleKeylessDocument =
     exampleDocument\<lparr>doc := (doc exampleDocument)\<lparr>verificationMethod :=
       Some [\<lparr>id_vm = ''did:vda:0xabc'', type_vm = ''EcdsaSecp256k1VerificationKey2019'',
              controller_vm = ''did:vda:0xabc'', publicKeyHex = None\<rparr>]\<rparr>\<rparr>"

text \<open>The example document after signing, and the signed document with another controller.\<close>

definition exampleSigned :: DIDDocument where
  "exampleSigned = snd (signProof exampleSignData exampleDocument (KeyString ''0x01''))"

definition exampleTampered :: DIDDocument where
  "exampleTampered = exampleSigned\<lparr>doc := (doc exampleSigned)\<lparr>controller := ''did:vda:0xeve''\<rparr>\<rparr>"

section \<open>Sending a message\<close>

text \<open>
  \<^verbatim>\<open>MessagingEngineVerida.send\<close>. The outbox, the datastore behind it and the notification
  service are classes of other files; what the awaited calls yield is a parameter:
  \<open>getOutbox\<close> is the outcome of \<^verbatim>\<open>this.getOutbox()\<close>, \<open>outboxSend\<close> that of
  \<^verbatim>\<open>outbox.send(...)\<close> (an object or \<^verbatim>\<open>null\<close>), \<open>notificationService\<close> the \<^verbatim>\<open>ping\<close> of
  the optional notification service, \<open>vaultAppName\<close> the client's configured name. An
  awaited call that rejects is \<open>Inl\<close>. The result comes with the list of pings made.
\<close>

record MessageSendConfig =
  recipientContextName :: "string option"

definition send ::
  "(jsError + 'o)
   \<Rightarrow> ('o \<Rightarrow> string \<Rightarrow> string \<Rightarrow> 'd \<Rightarrow> string \<Rightarrow> MessageSendConfig \<Rightarrow> jsError + 'r option)
   \<Rightarrow> (string \<Rightarrow> string \<Rightarrow> jsError + 'p) option
   \<Rightarrow> string
   \<Rightarrow> string \<Rightarrow> string \<Rightarrow> 'd \<Rightarrow> string \<Rightarrow> MessageSendConfig
   \<Rightarrow> (jsError + 'r option) \<times> (string \<times> string) list" where
  "send getOutbox outboxSend notificationService vaultAppName did type' data message config =
     (case getOutbox of
        Inl e \<Rightarrow> (Inl e, [])
      | Inr outbox \<Rightarrow>
          (case outboxSend outbox did type' data message config of
             Inl e \<Rightarrow> (Inl e, [])
           | Inr response \<Rightarrow>
               let recipientContextName' =
                     (case recipientContextName config of
                        None \<Rightarrow> vaultAppName
                      | Some n \<Rightarrow> if n = [] then vaultAppName else n) in
               (case (response, notificationService) of
                  (Some r, Some ping) \<Rightarrow>
                    (case ping recipientContextName' did of
                       Inl e \<Rightarrow> (Inl e, [(recipientContextName', did)])
                     | Inr _ \<Rightarrow> (Inr response, [(recipientContextName', did)]))
                | _ \<Rightarrow> (Inr response, []))))"

definition recipientOf :: "MessageSendConfig \<Rightarrow> string \<Rightarrow> string" where
  "recipientOf config vaultAppName =
     (case recipientContextName config of
        None \<Rightarrow> vaultAppName
      | Some n \<Rightarrow> if n = [] then vaultAppName else n)"

text \<open>
  Modelled from the spec: the notification engine whose \<^verbatim>\<open>ping\<close> the context injects into
  the messaging engine is not among the sources. The spec has the ping as best-effort: it
  asks the notification server to notify the recipient, and a request that fails is
  answered with \<^verbatim>\<open>false\<close> instead of being raised. \<open>post\<close> is what the request to the
  server yields.
\<close>

definition ping ::
  "(string \<Rightarrow> string \<Rightarrow> jsError + 'x) \<Rightarrow> string \<Rightarrow> string \<Rightarrow> jsError + bool" where
  "ping post context did =
     (case post context did of
        Inl e \<Rightarrow> Inr False
      | Inr _ \<Rightarrow> Inr True)"

section \<open>Context configuration and engines\<close>

text \<open>
  Modelled from the spec: \<^verbatim>\<open>SecureContextConfig\<close> is declared in the storage-link package,
  which is not among the sources. The spec gives it as an id, the public keys
  \<^verbatim>\<open>{signKey, asymKey}\<close>, each \<^verbatim>\<open>{type, publicKeyHex}\<close>, and the services
  \<^verbatim>\<open>{databaseServer, messageServer, storageServer?, notificationServer?}\<close>, each
  \<^verbatim>\<open>{type, endpointUri}\<close>.
\<close>

record PublicKey =
  type_key :: string
  publicKeyHex_key :: string

record SecureContextPublicKeys =
  signKey :: PublicKey
  asymKey :: PublicKey

record SecureContextServices =
  databaseServer :: EndpointConfig
  messageServer :: EndpointConfig
  storageServer :: "EndpointConfig option"
  notificationServer :: "EndpointConfig option"

record SecureContextConfig =
  id_config :: string
  publicKeys :: SecureContextPublicKeys
  services :: SecureContextServices

subsection \<open>Property lookup on object literals\<close>

text \<open>
  The engine tables and the caches are plain objects indexed by a string, so a lookup
  \<^verbatim>\<open>table[key]\<close> also finds the members every object inherits from \<^verbatim>\<open>Object.prototype\<close>.
  \<open>Own\<close> is a property of the object itself, \<open>Inherited\<close> one of the inherited members
  (all of them truthy), \<open>Missing\<close> is \<^verbatim>\<open>undefined\<close>.
\<close>

definition objectPrototypeKeys :: "string list" where
  "objectPrototypeKeys =
     [''constructor'', ''__defineGetter__'', ''__defineSetter__'', ''hasOwnProperty'',
      ''__lookupGetter__'', ''__lookupSetter__'', ''isPrototypeOf'', ''propertyIsEnumerable'',
      ''toString'', ''valueOf'', ''__proto__'', ''toLocaleString'']"

datatype 'v Lookup = Own 'v | Inherited | Missing

definition lookupProperty :: "(string \<rightharpoonup> 'v) \<Rightarrow> string \<Rightarrow> 'v Lookup" where
  "lookupProperty table key =
     (case table key of
        Some v \<Rightarrow> Own v
      | None \<Rightarrow> if key \<in> set objectPrototypeKeys then Inherited else Missing)"

subsection \<open>The context\<close>

datatype EngineClass = StorageEngineVerida

definition DATABASE_ENGINES :: "string \<rightharpoonup> EngineClass" where
  "DATABASE_ENGINES = [''VeridaDatabase'' \<mapsto> StorageEngineVerida]"

text \<open>
  The fields of \<^verbatim>\<open>Context\<close> that \<^verbatim>\<open>getDatabaseEngine\<close> reads and writes. The account, the
  DID context manager and the engine class are collaborators: \<open>accountDid\<close> is
  \<^verbatim>\<open>account.did()\<close>, \<open>getDIDContextConfig\<close> is
  \<^verbatim>\<open>didContextManager.getDIDContextConfig(did, contextName, forceCreate)\<close>, \<open>newEngine\<close> is
  \<^verbatim>\<open>new engine(contextName, dbRegistry, endpointUri)\<close> and \<open>connectAccount\<close> the engine's
  \<^verbatim>\<open>connectAccount(account)\<close>. Each call made to a collaborator is logged, in order.
\<close>

record ('acc, 'eng) Context =
  contextName_ctx :: string
  account :: "'acc option"
  databaseEngines :: "string \<rightharpoonup> 'eng"

datatype Call =
    AccountDid
  | GetDIDContextConfig string string "bool option"
  | NewEngine EngineClass string string
  | ConnectAccount

definition getContextConfig ::
  "('acc \<Rightarrow> jsError + string)
   \<Rightarrow> (string \<Rightarrow> string \<Rightarrow> bool option \<Rightarrow> jsError + SecureContextConfig)
   \<Rightarrow> ('acc, 'eng) Context \<Rightarrow> string option \<Rightarrow> bool option \<Rightarrow> string option
   \<Rightarrow> (jsError + SecureContextConfig) \<times> Call list" where
  "getContextConfig accountDid getDIDContextConfig this did forceCreate customContextName =
     (let name = (case customContextName of
                    None \<Rightarrow> contextName_ctx this
                  | Some n \<Rightarrow> if n = [] then contextName_ctx this else n);
          given = (case did of None \<Rightarrow> [] | Some d \<Rightarrow> d) in
      if given = [] then
        (case account this of
           None \<Rightarrow> (Inl (Error ''No DID specified and no authenticated user''), [])
         | Some a \<Rightarrow>
             (case accountDid a of
                Inl e \<Rightarrow> (Inl e, [AccountDid])
              | Inr did' \<Rightarrow>
                  (getDIDContextConfig did' name forceCreate,
                   [AccountDid, GetDIDContextConfig did' name forceCreate])))
      else
        (getDIDContextConfig given name forceCreate,
         [GetDIDContextConfig given name forceCreate]))"

definition getDatabaseEngine ::
  "('acc \<Rightarrow> jsError + string)
   \<Rightarrow> (string \<Rightarrow> string \<Rightarrow> bool option \<Rightarrow> jsError + SecureContextConfig)
   \<Rightarrow> (EngineClass \<Rightarrow> string \<Rightarrow> string \<Rightarrow> 'eng)
   \<Rightarrow> ('eng \<Rightarrow> 'acc \<Rightarrow> jsError + 'eng)
   \<Rightarrow> ('acc, 'eng) Context \<Rightarrow> string \<Rightarrow> bool option
   \<Rightarrow> (jsError + 'eng) \<times> ('acc, 'eng) Context \<times> Call list" where
  "getDatabaseEngine accountDid getDIDContextConfig newEngine connectAccount this did createContext =
     (case lookupProperty (databaseEngines this) did of
        Own cached \<Rightarrow> (Inr cached, this, [])
      | Inherited \<Rightarrow> (Inl NotModelled, this, [])
      | Missing \<Rightarrow>
          (case getContextConfig accountDid getDIDContextConfig this (Some did) createContext None of
             (Inl e, calls) \<Rightarrow> (Inl e, this, calls)
           | (Inr contextConfig, calls) \<Rightarrow>
               let engineType = type_ep (databaseServer (services contextConfig)) in
               (case lookupProperty DATABASE_ENGINES engineType of
                  Missing \<Rightarrow>
                    (Inl (Error (''Unsupported database engine type specified: '' @ engineType)),
                     this, calls)
                | Inherited \<Rightarrow> (Inl NotModelled, this, calls)
                | Own engine \<Rightarrow>
                    let uri = endpointUri (databaseServer (services contextConfig));
                        databaseEngine = newEngine engine (contextName_ctx this) uri;
                        calls = calls @ [NewEngine engine (contextName_ctx this) uri] in
                    (case account this of
                       None \<Rightarrow>
                         (Inr databaseEngine,
                          this\<lparr>databaseEngines := (databaseEngines this)(did \<mapsto> databaseEngine)\<rparr>,
                          calls)
                     | Some a \<Rightarrow>
                         (case connectAccount databaseEngine a of
                            Inl e \<Rightarrow> (Inl e, this, calls @ [ConnectAccount])
                          | Inr connected \<Rightarrow>
                              (Inr connected,
                               this\<lparr>databaseEngines := (databaseEngines this)(did \<mapsto> connected)\<rparr>,
                               calls @ [ConnectAccount]))))))"

text \<open>A configuration that names a database engine which is not registered.\<close>

definition exampleConfig :: SecureContextConfig where
  "exampleConfig =
     \<lparr>id_config = ''0x6a4c'',
      publicKeys = \<lparr>signKey = \<lparr>type_key = ''EcdsaSecp256k1VerificationKey2019'',
                               publicKeyHex_key = ''0x970c''\<rparr>,
                    asymKey = \<lparr>type_key = ''Curve25519EncryptionPublicKey'',
                               publicKeyHex_key = ''0x270c''\<rparr>\<rparr>,
      services = \<lparr>databaseServer = \<lparr>type_ep = ''CouchDatabase'',
                                     endpointUri = ''https://db.example/''\<rparr>,
                  messageServer = \<lparr>type_ep = ''VeridaMessage'',
                                    endpointUri = ''https://msg.example/''\<rparr>,
                  storageServer = None, notificationServer = None\<rparr>\<rparr>"

definition exampleContext :: "(string, string) Context" where
  "exampleContext = \<lparr>contextName_ctx = ''My App'', account = None, databaseEngines = Map.empty\<rparr>"

section \<open>Authentication contexts\<close>










section \<open>Properties of the context hash\<close>

lemma sameLetter_toLowerChar:
  assumes "sameLetter a b"
  shows "toLowerChar a = toLowerChar b"
proof -
  have shift: "toLowerChar x = toLowerChar y"
    if up: "isUpperAscii x" and eq: "(of_char y :: nat) = of_char x + 32" for x y
  proof -
    have "65 \<le> (of_char x :: nat)"
      using up by (simp add: isUpperAscii_def)
    then have "\<not> isUpperAscii y"
      using eq by (simp add: isUpperAscii_def)
    moreover have "char_of ((of_char x :: nat) + 32) = y"
      using eq by (metis char_of_char)
    ultimately show ?thesis
      using up by (simp add: toLowerChar_def)
  qed
  from assms consider "a = b"
    | "isUpperAscii a" "(of_char b :: nat) = of_char a + 32"
    | "isUpperAscii b" "(of_char a :: nat) = of_char b + 32"
    unfolding sameLetter_def by blast
  then show ?thesis
  proof cases
    case 1
    then show ?thesis by simp
  next
    case 2
    then show ?thesis by (rule shift)
  next
    case 3
    then show ?thesis by (rule shift [symmetric])
  qed
qed

lemma differOnlyInCase_asciiLowerCase:
  assumes "differOnlyInCase s t"
  shows "asciiLowerCase s = asciiLowerCase t"
  using assms unfolding differOnlyInCase_def asciiLowerCase_def
  by (induction s t rule: list_all2_induct) (simp_all add: sameLetter_toLowerChar)

lemma sameLetter_ascii:
  assumes "sameLetter a b" and "(of_char a :: nat) < 128"
  shows "(of_char b :: nat) < 128"
  using assms unfolding sameLetter_def isUpperAscii_def by auto

lemma differOnlyInCase_ascii:
  assumes "differOnlyInCase s t" and "asciiString s"
  shows "asciiString t"
  using assms unfolding differOnlyInCase_def asciiString_def
  by (induction s t rule: list_all2_induct) (auto dest: sameLetter_ascii)

text \<open>
  C1. For every DID and context name the context hash is the hash of the lower-cased DID,
  a slash and the context name, lower-casing being the built-in \<^verbatim>\<open>toLowerCase\<close>; it is a
  function of these, so it is deterministic. Two DIDs with the same lower-case form
  receive the same hash; in particular, since the built-in lower-cases ASCII text letter
  by letter, two ASCII DIDs that differ only in the case of their letters do.
\<close>

theorem generateContextHash_lowercase_stable:
  "generateContextHash toLowerCase hash did contextName
     = hash (toLowerCase did @ ''/'' @ contextName)
   \<and> (toLowerCase did1 = toLowerCase did2 \<longrightarrow>
        generateContextHash toLowerCase hash did1 contextName
        = generateContextHash toLowerCase hash did2 contextName)
   \<and> ((\<forall>s. asciiString s \<longrightarrow> toLowerCase s = asciiLowerCase s)
        \<and> asciiString did1 \<and> differOnlyInCase did1 did2 \<longrightarrow>
        generateContextHash toLowerCase hash did1 contextName
        = generateContextHash toLowerCase hash did2 contextName)"
proof (intro conjI impI)
  show "generateContextHash toLowerCase hash did contextName
     = hash (toLowerCase did @ ''/'' @ contextName)"
    by (simp add: generateContextHash_def)
next
  assume "toLowerCase did1 = toLowerCase did2"
  then show "generateContextHash toLowerCase hash did1 contextName
        = generateContextHash toLowerCase hash did2 contextName"
    by (simp add: generateContextHash_def)
next
  assume h: "(\<forall>s. asciiString s \<longrightarrow> toLowerCase s = asciiLowerCase s)
        \<and> asciiString did1 \<and> differOnlyInCase did1 did2"
  then have a1: "asciiString did1" and d: "differOnlyInCase did1 did2"
    by simp_all
  have a2: "asciiString did2"
    using d a1 by (rule differOnlyInCase_ascii)
  have "toLowerCase did1 = asciiLowerCase did1" and "toLowerCase did2 = asciiLowerCase did2"
    using h a1 a2 by simp_all
  then have "toLowerCase did1 = toLowerCase did2"
    using differOnlyInCase_asciiLowerCase [OF d] by simp
  then show "generateContextHash toLowerCase hash did1 contextName
        = generateContextHash toLowerCase hash did2 contextName"
    by (simp add: generateContextHash_def)
qed

theorem generateContextHash_lowercase_stable_witness:
  "asciiString ''did:vda:0xAbC''
   \<and> differOnlyInCase ''did:vda:0xAbC'' ''did:vda:0xabc''
   \<and> generateContextHash asciiLowerCase rev ''did:vda:0xAbC'' ''My App''
       = rev ''did:vda:0xabc/My App''
   \<and> generateContextHash asciiLowerCase rev ''did:vda:0xAbC'' ''My App''
       = generateContextHash asciiLowerCase rev ''did:vda:0xabc'' ''My App''"
proof -
  have a: "asciiString ''did:vda:0xAbC''"
    by (simp add: asciiString_def)
  have d: "differOnlyInCase ''did:vda:0xAbC'' ''did:vda:0xabc''"
    by (simp add: differOnlyInCase_def sameLetter_def isUpperAscii_def)
  have l: "asciiLowerCase ''did:vda:0xAbC'' = ''did:vda:0xabc''"
    by code_simp
  have agree: "\<forall>s. asciiString s \<longrightarrow> asciiLowerCase s = asciiLowerCase s"
    by simp
  note t = generateContextHash_lowercase_stable
    [where toLowerCase = asciiLowerCase and hash = rev and did = "''did:vda:0xAbC''"
       and contextName = "''My App''" and ?did1.0 = "''did:vda:0xAbC''"
       and ?did2.0 = "''did:vda:0xabc''"]
  from t l have f: "generateContextHash asciiLowerCase rev ''did:vda:0xAbC'' ''My App''
      = rev ''did:vda:0xabc/My App''"
    by simp
  from t agree a d have e: "generateContextHash asciiLowerCase rev ''did:vda:0xAbC'' ''My App''
      = generateContextHash asciiLowerCase rev ''did:vda:0xabc'' ''My App''"
    by blast
  from a d f e show ?thesis
    by blast
qed

section \<open>Adding and removing a context\<close>

lemma regexLiteral_plain_Cons:
  assumes "\<not> regexSpecial c"
  shows "regexLiteral (c # cs) = map_option ((#) c) (regexLiteral cs)"
  using assms by (cases cs) (auto simp: regexSpecial_def)

lemma regexLiteral_escaped:
  assumes "regexSpecial d"
  shows "regexLiteral (backslash # d # ds) = map_option ((#) d) (regexLiteral ds)"
  using assms by simp

lemma regexLiteral_plain_append:
  assumes "plainText s"
  shows "regexLiteral (s @ t) = map_option ((@) s) (regexLiteral t)"
  using assms
proof (induction s)
  case Nil
  then show ?case by (simp add: option.map_ident)
next
  case (Cons c s)
  then have c: "\<not> regexSpecial c" and s: "plainText s"
    by (simp_all add: plainText_def)
  show ?case
    by (simp add: regexLiteral_plain_Cons [OF c] Cons.IH [OF s] option.map_comp comp_def)
qed

lemma regexLiteral_plain:
  assumes "plainText s"
  shows "regexLiteral s = Some s"
  using regexLiteral_plain_append [OF assms, of "[]"] by simp

lemma regexLiteral_contextDidPattern:
  assumes "plainText did" and "plainText h"
  shows "regexLiteral (contextDidPattern did h) = Some (contextDid did h)"
proof -
  have q: "regexSpecial (CHR ''?'')"
    by (simp add: regexSpecial_def)
  have k: "plainText ''context=''"
    by (simp add: plainText_def regexSpecial_def backslash_def)
  have "regexLiteral (''context='' @ h) = Some (''context='' @ h)"
    using regexLiteral_plain_append [OF k, of h] regexLiteral_plain [OF assms(2)] by simp
  then have "regexLiteral (backslash # CHR ''?'' # ''context='' @ h) = Some (''?context='' @ h)"
    using regexLiteral_escaped [OF q, of "''context='' @ h"] by simp
  then show ?thesis
    using regexLiteral_plain_append [OF assms(1), of "backslash # CHR ''?'' # ''context='' @ h"]
    by (simp add: contextDidPattern_def contextDid_def)
qed

lemma contextEntryId_contextDid:
  "contextEntryId did h frag = contextDid did h @ ''#'' @ frag"
  by (simp add: contextEntryId_def contextDid_def)

lemma sublist_contextEntryId: "sublist (contextDid did h) (contextEntryId did h frag)"
  unfolding contextEntryId_contextDid by (rule sublist_append_rightI)

lemma removeContext_no_methods:
  assumes "verificationMethod (doc this) = None"
  shows "removeContext toLowerCase hash this contextName
         = (Inr False, this\<lparr>errors := [''No verification method specified'']\<rparr>)"
  using assms by (simp add: removeContext_def Let_def)

lemma removeContext_no_match:
  assumes vm: "verificationMethod (doc this) = Some vms"
    and lit: "regexLiteral (contextDidPattern (id_doc (doc this))
                (generateContextHash toLowerCase hash (id_doc (doc this)) contextName)) = Some lit"
    and none: "\<forall>entry \<in> set vms. \<not> sublist lit (id_vm entry)"
  shows "removeContext toLowerCase hash this contextName
         = (Inr False,
            this\<lparr>errors := [''Unable to locate verification method for this context'']\<rparr>)"
proof -
  have "find (\<lambda>entry. sublist lit (id_vm entry)) vms = None"
    using none by (simp add: find_None_iff)
  then show ?thesis
    using vm lit by (simp add: removeContext_def Let_def)
qed

lemma removeContext_match:
  assumes vm: "verificationMethod (doc this) = Some vms"
    and am: "assertionMethod (doc this) = Some ams"
    and ka: "keyAgreement (doc this) = Some kas"
    and sv: "service (doc this) = Some svcs"
    and lit: "regexLiteral (contextDidPattern (id_doc (doc this))
                (generateContextHash toLowerCase hash (id_doc (doc this)) contextName)) = Some lit"
    and some: "\<exists>entry \<in> set vms. sublist lit (id_vm entry)"
  shows "removeContext toLowerCase hash this contextName
         = (Inr True,
            this\<lparr>doc := (doc this)\<lparr>
              verificationMethod := Some (filter (\<lambda>entry. \<not> sublist lit (id_vm entry)) vms),
              assertionMethod := Some (filter (\<lambda>entry. entry \<noteq> RefString
                 (contextEntryId (id_doc (doc this))
                    (generateContextHash toLowerCase hash (id_doc (doc this)) contextName) ''sign'')) ams),
              keyAgreement := Some (filter (\<lambda>entry. entry \<noteq> RefString
                 (contextEntryId (id_doc (doc this))
                    (generateContextHash toLowerCase hash (id_doc (doc this)) contextName) ''asym'')) kas),
              service := Some (filter (\<lambda>entry. \<not> sublist lit (id_svc entry)) svcs)\<rparr>\<rparr>)"
proof -
  have "find (\<lambda>entry. sublist lit (id_vm entry)) vms \<noteq> None"
    using some by (auto simp: find_None_iff)
  then show ?thesis
    using vm am ka sv lit by (simp add: removeContext_def Let_def)
qed

lemma addContext_after_remove:
  assumes "removeContext toLowerCase hash this contextName = (Inr b, this0)"
  shows "addContext toLowerCase hash this contextName keys endpoints
         = (Inr (), this0\<lparr>doc := withContext toLowerCase hash (doc this0) contextName keys endpoints\<rparr>)"
  using assms
  by (simp add: addContext_def Let_def addContextService_def addContextSignKey_def
      addContextAsymKey_def withContext_def contextServices_def contextMethods_def orEmpty_def
      split: option.splits)

lemma filter_contextMethods:
  assumes "\<forall>entry \<in> set vms. \<not> sublist (contextDid did h) (id_vm entry)"
  shows "filter (\<lambda>entry. \<not> sublist (contextDid did h) (id_vm entry))
           (vms @ contextMethods did h keys) = vms"
  using assms by (simp add: contextMethods_def sublist_contextEntryId filter_id_conv)

lemma filter_contextServices:
  assumes "\<forall>entry \<in> set svcs. \<not> sublist (contextDid did h) (id_svc entry)"
  shows "filter (\<lambda>entry. \<not> sublist (contextDid did h) (id_svc entry))
           (svcs @ contextServices did h endpoints) = svcs"
  using assms
  by (simp add: contextServices_def sublist_contextEntryId filter_id_conv split: option.splits)

lemma filter_ref:
  assumes "r \<notin> set refs"
  shows "filter (\<lambda>entry. entry \<noteq> r) (refs @ [r]) = refs"
  using assms by (auto simp: filter_id_conv)

lemma removeContext_absent:
  assumes p1: "plainText (id_doc (doc this))"
    and p2: "plainText (generateContextHash toLowerCase hash (id_doc (doc this)) contextName)"
    and absent: "list_all (\<lambda>entry. \<not> sublist
                   (contextDid (id_doc (doc this))
                      (generateContextHash toLowerCase hash (id_doc (doc this)) contextName)) (id_vm entry))
                   (orEmpty (verificationMethod (doc this)))"
  shows "removeContext toLowerCase hash this contextName
         = (Inr False, this\<lparr>errors :=
              [if verificationMethod (doc this) = None
               then ''No verification method specified''
               else ''Unable to locate verification method for this context'']\<rparr>)"
proof (cases "verificationMethod (doc this)")
  case None
  then show ?thesis
    using removeContext_no_methods [of this toLowerCase hash contextName] by simp
next
  case (Some vms)
  have "\<forall>entry \<in> set vms. \<not> sublist (contextDid (id_doc (doc this))
          (generateContextHash toLowerCase hash (id_doc (doc this)) contextName)) (id_vm entry)"
    using absent Some by (simp add: orEmpty_def list_all_iff)
  then show ?thesis
    using removeContext_no_match [OF Some regexLiteral_contextDidPattern [OF p1 p2]] Some
    by simp
qed

lemma withContext_id [simp]: "id_doc (withContext toLowerCase hash d contextName keys endpoints) = id_doc d"
  by (simp add: withContext_def Let_def)

lemma addContext_then_removeContext:
  assumes p1: "plainText (id_doc (doc this))"
    and p2: "plainText (generateContextHash toLowerCase hash (id_doc (doc this)) X)"
    and absent: "contextAbsent toLowerCase hash (doc this) X"
  shows "fst (addContext toLowerCase hash this X keys endpoints) = Inr ()
     \<and> fst (removeContext toLowerCase hash (snd (addContext toLowerCase hash this X keys endpoints)) X) = Inr True
     \<and> doc (snd (removeContext toLowerCase hash (snd (addContext toLowerCase hash this X keys endpoints)) X))
        = (doc this)\<lparr>
            verificationMethod := Some (orEmpty (verificationMethod (doc this))),
            assertionMethod := Some (orEmpty (assertionMethod (doc this))),
            keyAgreement := Some (orEmpty (keyAgreement (doc this))),
            service := Some (orEmpty (service (doc this)))\<rparr>"
proof -
  define d where "d = doc this"
  define h where "h = generateContextHash toLowerCase hash (id_doc d) X"
  define lit where "lit = contextDid (id_doc d) h"
  have a_vm: "\<forall>entry \<in> set (orEmpty (verificationMethod d)). \<not> sublist lit (id_vm entry)"
    and a_sv: "\<forall>entry \<in> set (orEmpty (service d)). \<not> sublist lit (id_svc entry)"
    and a_am: "RefString (contextEntryId (id_doc d) h ''sign'') \<notin> set (orEmpty (assertionMethod d))"
    and a_ka: "RefString (contextEntryId (id_doc d) h ''asym'') \<notin> set (orEmpty (keyAgreement d))"
    using absent by (simp_all add: contextAbsent_def Let_def d_def h_def lit_def list_all_iff)
  obtain m where rm: "removeContext toLowerCase hash this X = (Inr False, this\<lparr>errors := m\<rparr>)"
    using removeContext_absent [OF p1 p2] a_vm
    by (auto simp: d_def h_def lit_def list_all_iff)
  define this1 where
    "this1 = this\<lparr>errors := m, doc := withContext toLowerCase hash d X keys endpoints\<rparr>"
  have add: "addContext toLowerCase hash this X keys endpoints = (Inr (), this1)"
    using addContext_after_remove [OF rm, of keys endpoints] by (simp add: this1_def d_def)
  have id1: "id_doc (doc this1) = id_doc d"
    by (simp add: this1_def)
  have lit1: "regexLiteral (contextDidPattern (id_doc (doc this1))
                (generateContextHash toLowerCase hash (id_doc (doc this1)) X)) = Some lit"
    using regexLiteral_contextDidPattern [OF p1 p2] by (simp add: id1 d_def h_def lit_def)
  have vm1: "verificationMethod (doc this1)
               = Some (orEmpty (verificationMethod d) @ contextMethods (id_doc d) h keys)"
    and am1: "assertionMethod (doc this1)
               = Some (orEmpty (assertionMethod d) @ [RefString (contextEntryId (id_doc d) h ''sign'')])"
    and ka1: "keyAgreement (doc this1)
               = Some (orEmpty (keyAgreement d) @ [RefString (contextEntryId (id_doc d) h ''asym'')])"
    and sv1: "service (doc this1)
               = Some (orEmpty (service d) @ contextServices (id_doc d) h endpoints)"
    by (simp_all add: this1_def withContext_def Let_def h_def)
  have some: "\<exists>entry \<in> set (orEmpty (verificationMethod d) @ contextMethods (id_doc d) h keys).
                sublist lit (id_vm entry)"
    by (simp add: contextMethods_def lit_def sublist_contextEntryId)
  note rm1 = removeContext_match [OF vm1 am1 ka1 sv1 lit1 some]
  have f_vm: "filter (\<lambda>entry. \<not> sublist lit (id_vm entry))
                (orEmpty (verificationMethod d) @ contextMethods (id_doc d) h keys)
              = orEmpty (verificationMethod d)"
    unfolding lit_def by (rule filter_contextMethods) (use a_vm in \<open>simp add: lit_def\<close>)
  have f_sv: "filter (\<lambda>entry. \<not> sublist lit (id_svc entry))
                (orEmpty (service d) @ contextServices (id_doc d) h endpoints)
              = orEmpty (service d)"
    unfolding lit_def by (rule filter_contextServices) (use a_sv in \<open>simp add: lit_def\<close>)
  have res: "removeContext toLowerCase hash this1 X
     = (Inr True, this1\<lparr>doc := (doc this1)\<lparr>
          verificationMethod := Some (orEmpty (verificationMethod d)),
          assertionMethod := Some (orEmpty (assertionMethod d)),
          keyAgreement := Some (orEmpty (keyAgreement d)),
          service := Some (orEmpty (service d))\<rparr>\<rparr>)"
    using rm1
    by (simp add: id1 h_def [symmetric] f_vm f_sv filter_ref [OF a_am] filter_ref [OF a_ka]
        del: filter_append)
  have "(doc this1)\<lparr>
          verificationMethod := Some (orEmpty (verificationMethod d)),
          assertionMethod := Some (orEmpty (assertionMethod d)),
          keyAgreement := Some (orEmpty (keyAgreement d)),
          service := Some (orEmpty (service d))\<rparr>
        = d\<lparr>
          verificationMethod := Some (orEmpty (verificationMethod d)),
          assertionMethod := Some (orEmpty (assertionMethod d)),
          keyAgreement := Some (orEmpty (keyAgreement d)),
          service := Some (orEmpty (service d))\<rparr>"
    by (simp add: this1_def withContext_def Let_def)
  then show ?thesis
    using add res by (simp add: d_def)
qed

subsection \<open>Removing what was just added\<close>

lemma example_plain_id: "plainText (id_doc (doc exampleDocument))"
  by code_simp

lemma example_plain_hash:
  "plainText (generateContextHash asciiLowerCase rev (id_doc (doc exampleDocument)) ''My App'')"
  by code_simp

lemma example_absent: "contextAbsent asciiLowerCase rev (doc exampleDocument) ''My App''"
  by code_simp

text \<open>
  C2 (amended). Let the DID and the context hash be free of regular-expression
  metacharacters and let no record of context \<open>X\<close> be present in the document. Then
  \<^verbatim>\<open>addContext\<close> succeeds, the following \<^verbatim>\<open>removeContext\<close> returns \<^verbatim>\<open>true\<close>, and each of the
  four collections holds exactly the entries it held before the add, in the same order; a
  collection that was absent before the add is an empty array afterwards. The id, the
  controller and the proof are untouched.
\<close>

theorem addContext_removeContext_restores:
  assumes "plainText (id_doc (doc this))"
    and "plainText (generateContextHash toLowerCase hash (id_doc (doc this)) X)"
    and "contextAbsent toLowerCase hash (doc this) X"
  shows "fst (addContext toLowerCase hash this X keys endpoints) = Inr ()
     \<and> fst (removeContext toLowerCase hash (snd (addContext toLowerCase hash this X keys endpoints)) X) = Inr True
     \<and> doc (snd (removeContext toLowerCase hash (snd (addContext toLowerCase hash this X keys endpoints)) X))
        = (doc this)\<lparr>
            verificationMethod := Some (orEmpty (verificationMethod (doc this))),
            assertionMethod := Some (orEmpty (assertionMethod (doc this))),
            keyAgreement := Some (orEmpty (keyAgreement (doc this))),
            service := Some (orEmpty (service (doc this)))\<rparr>"
  using assms by (rule addContext_then_removeContext)

theorem addContext_removeContext_restores_witness:
  "plainText (id_doc (doc exampleDocument))
   \<and> plainText (generateContextHash asciiLowerCase rev (id_doc (doc exampleDocument)) ''My App'')
   \<and> contextAbsent asciiLowerCase rev (doc exampleDocument) ''My App''
   \<and> fst (removeContext asciiLowerCase rev
         (snd (addContext asciiLowerCase rev exampleDocument ''My App'' exampleKeys exampleEndpoints))
         ''My App'') = Inr True
   \<and> verificationMethod (doc (snd (removeContext asciiLowerCase rev
         (snd (addContext asciiLowerCase rev exampleDocument ''My App'' exampleKeys exampleEndpoints))
         ''My App''))) = verificationMethod (doc exampleDocument)"
proof -
  note r = addContext_removeContext_restores
    [OF example_plain_id example_plain_hash example_absent, of exampleKeys exampleEndpoints]
  have "verificationMethod (doc (snd (removeContext asciiLowerCase rev
         (snd (addContext asciiLowerCase rev exampleDocument ''My App'' exampleKeys exampleEndpoints))
         ''My App''))) = verificationMethod (doc exampleDocument)"
    using r by (simp add: exampleDocument_def orEmpty_def)
  then show ?thesis
    using r example_plain_id example_plain_hash example_absent by blast
qed

text \<open>
  The claim as stated covers collections that were absent before the add. The document
  the constructor makes has no \<^verbatim>\<open>service\<close> collection; after \<^verbatim>\<open>addContext\<close> and
  \<^verbatim>\<open>removeContext\<close> it has an empty one.
\<close>

theorem addContext_removeContext_absent_collection:
  "contextAbsent asciiLowerCase rev (doc exampleDocument) ''My App''
   \<and> service (doc exampleDocument) = None
   \<and> service (doc (snd (removeContext asciiLowerCase rev
         (snd (addContext asciiLowerCase rev exampleDocument ''My App'' exampleKeys exampleEndpoints))
         ''My App''))) = Some []"
proof -
  note r = addContext_then_removeContext
    [OF example_plain_id example_plain_hash example_absent, of exampleKeys exampleEndpoints]
  have n: "service (doc exampleDocument) = None"
    by (simp add: exampleDocument_def)
  have "service (doc (snd (removeContext asciiLowerCase rev
         (snd (addContext asciiLowerCase rev exampleDocument ''My App'' exampleKeys exampleEndpoints))
         ''My App''))) = Some []"
    using r by (simp add: n orEmpty_def)
  then show ?thesis
    using n example_absent by blast
qed

subsection \<open>The error that addContext leaves behind\<close>

lemma example_no_method:
  "list_all (\<lambda>entry. \<not> sublist
      (contextDid (id_doc (doc exampleDocument))
         (generateContextHash asciiLowerCase rev (id_doc (doc exampleDocument)) ''My App'')) (id_vm entry))
      (orEmpty (verificationMethod (doc exampleDocument)))"
  using example_absent by (simp add: contextAbsent_def Let_def)

lemma addContext_absent:
  assumes p1: "plainText (id_doc (doc this))"
    and p2: "plainText (generateContextHash toLowerCase hash (id_doc (doc this)) contextName)"
    and absent: "list_all (\<lambda>entry. \<not> sublist
                   (contextDid (id_doc (doc this))
                      (generateContextHash toLowerCase hash (id_doc (doc this)) contextName)) (id_vm entry))
                   (orEmpty (verificationMethod (doc this)))"
  shows "addContext toLowerCase hash this contextName keys endpoints
         = (Inr (), this\<lparr>errors :=
              [if verificationMethod (doc this) = None
               then ''No verification method specified''
               else ''Unable to locate verification method for this context''],
             doc := withContext toLowerCase hash (doc this) contextName keys endpoints\<rparr>)"
  using addContext_after_remove [OF removeContext_absent [OF p1 p2 absent], of keys endpoints]
  by simp

text \<open>
  C10. When no verification method of the context is on the document (the DID and the
  hash being free of regular-expression metacharacters), \<^verbatim>\<open>addContext\<close> succeeds and
  \<^verbatim>\<open>getErrors()\<close> afterwards returns the one message that the internal \<^verbatim>\<open>removeContext\<close>
  recorded: the array is not empty.
\<close>

theorem addContext_leaves_error:
  assumes "plainText (id_doc (doc this))"
    and "plainText (generateContextHash toLowerCase hash (id_doc (doc this)) contextName)"
    and "list_all (\<lambda>entry. \<not> sublist
           (contextDid (id_doc (doc this))
              (generateContextHash toLowerCase hash (id_doc (doc this)) contextName)) (id_vm entry))
           (orEmpty (verificationMethod (doc this)))"
  shows "fst (addContext toLowerCase hash this contextName keys endpoints) = Inr ()
     \<and> getErrors (snd (addContext toLowerCase hash this contextName keys endpoints))
        = [if verificationMethod (doc this) = None
           then ''No verification method specified''
           else ''Unable to locate verification method for this context'']
     \<and> getErrors (snd (addContext toLowerCase hash this contextName keys endpoints)) \<noteq> []"
  using addContext_absent [OF assms, of keys endpoints] by (simp add: getErrors_def)

theorem addContext_leaves_error_witness:
  "plainText (id_doc (doc exampleDocument))
   \<and> plainText (generateContextHash asciiLowerCase rev (id_doc (doc exampleDocument)) ''My App'')
   \<and> list_all (\<lambda>entry. \<not> sublist
        (contextDid (id_doc (doc exampleDocument))
           (generateContextHash asciiLowerCase rev (id_doc (doc exampleDocument)) ''My App'')) (id_vm entry))
        (orEmpty (verificationMethod (doc exampleDocument)))
   \<and> getErrors exampleDocument = []
   \<and> fst (addContext asciiLowerCase rev exampleDocument ''My App'' exampleKeys exampleEndpoints) = Inr ()
   \<and> getErrors (snd (addContext asciiLowerCase rev exampleDocument ''My App'' exampleKeys exampleEndpoints))
      = [''Unable to locate verification method for this context'']"
proof -
  note r = addContext_leaves_error
    [OF example_plain_id example_plain_hash example_no_method, of exampleKeys exampleEndpoints]
  have v: "verificationMethod (doc exampleDocument) \<noteq> None"
    by (simp add: exampleDocument_def)
  have e: "getErrors exampleDocument = []"
    by (simp add: getErrors_def exampleDocument_def)
  have "getErrors (snd (addContext asciiLowerCase rev exampleDocument ''My App'' exampleKeys exampleEndpoints))
      = [''Unable to locate verification method for this context'']"
    using r v by simp
  then show ?thesis
    using r e example_plain_id example_plain_hash example_no_method by blast
qed

subsection \<open>The outcomes of removeContext\<close>

lemma exampleLinked_eq:
  "exampleLinked = exampleDocument\<lparr>
      errors := [''Unable to locate verification method for this context''],
      doc := withContext asciiLowerCase rev (doc exampleDocument) ''My App'' exampleKeys exampleEndpoints\<rparr>"
proof -
  have v: "verificationMethod (doc exampleDocument) \<noteq> None"
    by (simp add: exampleDocument_def)
  show ?thesis
    unfolding exampleLinked_def
    using addContext_absent [OF example_plain_id example_plain_hash example_no_method,
        of exampleKeys exampleEndpoints] v
    by simp
qed

lemma exampleLinked_id: "id_doc (doc exampleLinked) = ''did:vda:0xabc''"
  by (simp add: exampleLinked_eq) (simp add: exampleDocument_def)

lemma removeContext_removed:
  assumes p1: "plainText (id_doc (doc this))"
    and p2: "plainText (generateContextHash toLowerCase hash (id_doc (doc this)) contextName)"
    and vm: "verificationMethod (doc this) = Some vms"
    and am: "assertionMethod (doc this) = Some ams"
    and ka: "keyAgreement (doc this) = Some kas"
    and sv: "service (doc this) = Some svcs"
    and some: "\<exists>entry \<in> set vms. sublist
                 (contextDid (id_doc (doc this))
                    (generateContextHash toLowerCase hash (id_doc (doc this)) contextName)) (id_vm entry)"
  shows "contextAbsent toLowerCase hash (doc (snd (removeContext toLowerCase hash this contextName))) contextName"
  using removeContext_match [OF vm am ka sv regexLiteral_contextDidPattern [OF p1 p2] some]
  by (simp add: contextAbsent_def Let_def orEmpty_def list_all_iff)

text \<open>
  C4 (amended). With a DID and a context hash free of regular-expression metacharacters,
  \<^verbatim>\<open>removeContext(name)\<close> returns \<^verbatim>\<open>false\<close> and records an error when the document has no
  \<^verbatim>\<open>verificationMethod\<close> collection, or when no verification-method id contains
  \<^verbatim>\<open><did>?context=<hash>\<close>. Otherwise, when \<^verbatim>\<open>assertionMethod\<close>, \<^verbatim>\<open>keyAgreement\<close> and
  \<^verbatim>\<open>service\<close> are all present, it returns \<^verbatim>\<open>true\<close> and removes the verification methods and
  services whose id contains that text, the id \<^verbatim>\<open><did>?context=<hash>#sign\<close> from
  \<^verbatim>\<open>assertionMethod\<close> and the id \<^verbatim>\<open><did>?context=<hash>#asym\<close> from \<^verbatim>\<open>keyAgreement\<close>; none
  of these is left afterwards.
\<close>

theorem removeContext_outcomes:
  assumes "plainText (id_doc (doc this))"
    and "plainText (generateContextHash toLowerCase hash (id_doc (doc this)) contextName)"
  shows "(verificationMethod (doc this) = None \<longrightarrow>
            removeContext toLowerCase hash this contextName
            = (Inr False, this\<lparr>errors := [''No verification method specified'']\<rparr>))
     \<and> (verificationMethod (doc this) = Some vms
          \<and> (\<forall>entry \<in> set vms. \<not> sublist
                 (contextDid (id_doc (doc this))
                    (generateContextHash toLowerCase hash (id_doc (doc this)) contextName)) (id_vm entry))
          \<longrightarrow> removeContext toLowerCase hash this contextName
               = (Inr False,
                  this\<lparr>errors := [''Unable to locate verification method for this context'']\<rparr>))
     \<and> (verificationMethod (doc this) = Some vms
          \<and> (\<exists>entry \<in> set vms. sublist
                 (contextDid (id_doc (doc this))
                    (generateContextHash toLowerCase hash (id_doc (doc this)) contextName)) (id_vm entry))
          \<and> assertionMethod (doc this) = Some ams
          \<and> keyAgreement (doc this) = Some kas
          \<and> service (doc this) = Some svcs
          \<longrightarrow> removeContext toLowerCase hash this contextName
               = (Inr True,
                  this\<lparr>doc := (doc this)\<lparr>
                    verificationMethod := Some (filter (\<lambda>entry. \<not> sublist
                       (contextDid (id_doc (doc this))
                          (generateContextHash toLowerCase hash (id_doc (doc this)) contextName))
                       (id_vm entry)) vms),
                    assertionMethod := Some (filter (\<lambda>entry. entry \<noteq> RefString
                       (contextEntryId (id_doc (doc this))
                          (generateContextHash toLowerCase hash (id_doc (doc this)) contextName) ''sign''))
                       ams),
                    keyAgreement := Some (filter (\<lambda>entry. entry \<noteq> RefString
                       (contextEntryId (id_doc (doc this))
                          (generateContextHash toLowerCase hash (id_doc (doc this)) contextName) ''asym''))
                       kas),
                    service := Some (filter (\<lambda>entry. \<not> sublist
                       (contextDid (id_doc (doc this))
                          (generateContextHash toLowerCase hash (id_doc (doc this)) contextName))
                       (id_svc entry)) svcs)\<rparr>\<rparr>)
             \<and> contextAbsent toLowerCase hash (doc (snd (removeContext toLowerCase hash this contextName))) contextName)"
proof (intro conjI impI)
  assume "verificationMethod (doc this) = None"
  then show "removeContext toLowerCase hash this contextName
      = (Inr False, this\<lparr>errors := [''No verification method specified'']\<rparr>)"
    by (rule removeContext_no_methods)
next
  assume "verificationMethod (doc this) = Some vms
          \<and> (\<forall>entry \<in> set vms. \<not> sublist
                 (contextDid (id_doc (doc this))
                    (generateContextHash toLowerCase hash (id_doc (doc this)) contextName)) (id_vm entry))"
  then show "removeContext toLowerCase hash this contextName
      = (Inr False,
         this\<lparr>errors := [''Unable to locate verification method for this context'']\<rparr>)"
    using removeContext_no_match [OF _ regexLiteral_contextDidPattern [OF assms]] by blast
next
  assume h: "verificationMethod (doc this) = Some vms
          \<and> (\<exists>entry \<in> set vms. sublist
                 (contextDid (id_doc (doc this))
                    (generateContextHash toLowerCase hash (id_doc (doc this)) contextName)) (id_vm entry))
          \<and> assertionMethod (doc this) = Some ams
          \<and> keyAgreement (doc this) = Some kas
          \<and> service (doc this) = Some svcs"
  then show "removeContext toLowerCase hash this contextName
               = (Inr True,
                  this\<lparr>doc := (doc this)\<lparr>
                    verificationMethod := Some (filter (\<lambda>entry. \<not> sublist
                       (contextDid (id_doc (doc this))
                          (generateContextHash toLowerCase hash (id_doc (doc this)) contextName))
                       (id_vm entry)) vms),
                    assertionMethod := Some (filter (\<lambda>entry. entry \<noteq> RefString
                       (contextEntryId (id_doc (doc this))
                          (generateContextHash toLowerCase hash (id_doc (doc this)) contextName) ''sign''))
                       ams),
                    keyAgreement := Some (filter (\<lambda>entry. entry \<noteq> RefString
                       (contextEntryId (id_doc (doc this))
                          (generateContextHash toLowerCase hash (id_doc (doc this)) contextName) ''asym''))
                       kas),
                    service := Some (filter (\<lambda>entry. \<not> sublist
                       (contextDid (id_doc (doc this))
                          (generateContextHash toLowerCase hash (id_doc (doc this)) contextName))
                       (id_svc entry)) svcs)\<rparr>\<rparr>)"
    using removeContext_match [OF _ _ _ _ regexLiteral_contextDidPattern [OF assms]] by blast
  from h show "contextAbsent toLowerCase hash (doc (snd (removeContext toLowerCase hash this contextName))) contextName"
    using removeContext_removed [OF assms] by blast
qed

lemma exampleLinked_collections:
  "verificationMethod (doc exampleLinked)
     = Some (orEmpty (verificationMethod (doc exampleDocument))
             @ contextMethods ''did:vda:0xabc''
                 (generateContextHash asciiLowerCase rev ''did:vda:0xabc'' ''My App'') exampleKeys)"
  "assertionMethod (doc exampleLinked)
     = Some (orEmpty (assertionMethod (doc exampleDocument))
             @ [RefString (contextEntryId ''did:vda:0xabc''
                  (generateContextHash asciiLowerCase rev ''did:vda:0xabc'' ''My App'') ''sign'')])"
  "keyAgreement (doc exampleLinked)
     = Some (orEmpty (keyAgreement (doc exampleDocument))
             @ [RefString (contextEntryId ''did:vda:0xabc''
                  (generateContextHash asciiLowerCase rev ''did:vda:0xabc'' ''My App'') ''asym'')])"
  "service (doc exampleLinked)
     = Some (orEmpty (service (doc exampleDocument))
             @ contextServices ''did:vda:0xabc''
                 (generateContextHash asciiLowerCase rev ''did:vda:0xabc'' ''My App'') exampleEndpoints)"
  by (simp_all add: exampleLinked_eq withContext_def Let_def) (simp_all add: exampleDocument_def)

lemma exampleLinked_plain:
  "plainText (id_doc (doc exampleLinked))"
  "plainText (generateContextHash asciiLowerCase rev (id_doc (doc exampleLinked)) ''My App'')"
  using example_plain_id example_plain_hash
  by (simp_all add: exampleLinked_id) (simp_all add: exampleDocument_def)

lemma exampleLinked_has_method:
  "\<exists>entry \<in> set (orEmpty (verificationMethod (doc exampleDocument))
             @ contextMethods ''did:vda:0xabc''
                 (generateContextHash asciiLowerCase rev ''did:vda:0xabc'' ''My App'') exampleKeys).
     sublist (contextDid (id_doc (doc exampleLinked))
                (generateContextHash asciiLowerCase rev (id_doc (doc exampleLinked)) ''My App''))
       (id_vm entry)"
  by (simp add: exampleLinked_id contextMethods_def sublist_contextEntryId)

theorem removeContext_outcomes_witness:
  "plainText (id_doc (doc exampleLinked))
   \<and> plainText (generateContextHash asciiLowerCase rev (id_doc (doc exampleLinked)) ''My App'')
   \<and> verificationMethod (doc exampleLinked) \<noteq> None
   \<and> assertionMethod (doc exampleLinked) \<noteq> None
   \<and> keyAgreement (doc exampleLinked) \<noteq> None
   \<and> service (doc exampleLinked) \<noteq> None
   \<and> fst (removeContext asciiLowerCase rev exampleLinked ''My App'') = Inr True
   \<and> contextAbsent asciiLowerCase rev (doc (snd (removeContext asciiLowerCase rev exampleLinked ''My App''))) ''My App''
   \<and> removeContext asciiLowerCase rev exampleDocument ''My App''
       = (Inr False, exampleDocument\<lparr>errors :=
            [''Unable to locate verification method for this context'']\<rparr>)"
proof -
  note linked = removeContext_outcomes [OF exampleLinked_plain,
      of "orEmpty (verificationMethod (doc exampleDocument))
          @ contextMethods ''did:vda:0xabc''
              (generateContextHash asciiLowerCase rev ''did:vda:0xabc'' ''My App'') exampleKeys"
         "orEmpty (assertionMethod (doc exampleDocument))
          @ [RefString (contextEntryId ''did:vda:0xabc''
               (generateContextHash asciiLowerCase rev ''did:vda:0xabc'' ''My App'') ''sign'')]"
         "orEmpty (keyAgreement (doc exampleDocument))
          @ [RefString (contextEntryId ''did:vda:0xabc''
               (generateContextHash asciiLowerCase rev ''did:vda:0xabc'' ''My App'') ''asym'')]"
         "orEmpty (service (doc exampleDocument))
          @ contextServices ''did:vda:0xabc''
              (generateContextHash asciiLowerCase rev ''did:vda:0xabc'' ''My App'') exampleEndpoints"]
  have prem: "verificationMethod (doc exampleLinked)
        = Some (orEmpty (verificationMethod (doc exampleDocument))
          @ contextMethods ''did:vda:0xabc''
              (generateContextHash asciiLowerCase rev ''did:vda:0xabc'' ''My App'') exampleKeys)
     \<and> (\<exists>entry \<in> set (orEmpty (verificationMethod (doc exampleDocument))
             @ contextMethods ''did:vda:0xabc''
                 (generateContextHash asciiLowerCase rev ''did:vda:0xabc'' ''My App'') exampleKeys).
          sublist (contextDid (id_doc (doc exampleLinked))
                (generateContextHash asciiLowerCase rev (id_doc (doc exampleLinked)) ''My App''))
            (id_vm entry))
     \<and> assertionMethod (doc exampleLinked)
        = Some (orEmpty (assertionMethod (doc exampleDocument))
          @ [RefString (contextEntryId ''did:vda:0xabc''
               (generateContextHash asciiLowerCase rev ''did:vda:0xabc'' ''My App'') ''sign'')])
     \<and> keyAgreement (doc exampleLinked)
        = Some (orEmpty (keyAgreement (doc exampleDocument))
          @ [RefString (contextEntryId ''did:vda:0xabc''
               (generateContextHash asciiLowerCase rev ''did:vda:0xabc'' ''My App'') ''asym'')])
     \<and> service (doc exampleLinked)
        = Some (orEmpty (service (doc exampleDocument))
          @ contextServices ''did:vda:0xabc''
              (generateContextHash asciiLowerCase rev ''did:vda:0xabc'' ''My App'') exampleEndpoints)"
    using exampleLinked_collections exampleLinked_has_method by blast
  note concl = linked [THEN conjunct2, THEN conjunct2, THEN mp, OF prem]
  have a: "fst (removeContext asciiLowerCase rev exampleLinked ''My App'') = Inr True"
    by (simp only: concl [THEN conjunct1] fst_conv)
  have b: "contextAbsent asciiLowerCase rev (doc (snd (removeContext asciiLowerCase rev exampleLinked ''My App''))) ''My App''"
    by (rule concl [THEN conjunct2])
  have vm: "verificationMethod (doc exampleDocument)
              = Some (orEmpty (verificationMethod (doc exampleDocument)))"
    by (simp add: exampleDocument_def orEmpty_def)
  have none: "\<forall>entry \<in> set (orEmpty (verificationMethod (doc exampleDocument))). \<not> sublist
                 (contextDid (id_doc (doc exampleDocument))
                    (generateContextHash asciiLowerCase rev (id_doc (doc exampleDocument)) ''My App''))
                 (id_vm entry)"
    using example_no_method by (simp add: list_all_iff)
  have c: "removeContext asciiLowerCase rev exampleDocument ''My App''
       = (Inr False, exampleDocument\<lparr>errors :=
            [''Unable to locate verification method for this context'']\<rparr>)"
    using removeContext_outcomes [OF example_plain_id example_plain_hash,
        of "orEmpty (verificationMethod (doc exampleDocument))"] vm none
    by blast
  show ?thesis
    using a b c exampleLinked_plain exampleLinked_collections by simp
qed

text \<open>
  The assertion-method and key-agreement filters compare each entry with one id. A
  document that lists the context's \<^verbatim>\<open>#asym\<close> key under \<^verbatim>\<open>assertionMethod\<close> as well keeps
  that entry after a removal that returned \<^verbatim>\<open>true\<close>: an entry naming the context hash is
  left behind.
\<close>

theorem removeContext_leaves_cross_listed_entry:
  "fst (removeContext asciiLowerCase rev exampleCrossListed ''My App'') = Inr True
   \<and> RefString (contextEntryId (id_doc (doc exampleCrossListed))
        (generateContextHash asciiLowerCase rev (id_doc (doc exampleCrossListed)) ''My App'') ''asym'')
      \<in> set (orEmpty (assertionMethod
           (doc (snd (removeContext asciiLowerCase rev exampleCrossListed ''My App'')))))"
proof -
  have id: "id_doc (doc exampleCrossListed) = ''did:vda:0xabc''"
    by (simp add: exampleCrossListed_def exampleLinked_id)
  have p: "plainText (id_doc (doc exampleCrossListed))"
    "plainText (generateContextHash asciiLowerCase rev (id_doc (doc exampleCrossListed)) ''My App'')"
    using exampleLinked_plain by (simp_all add: id exampleLinked_id)
  have vm: "verificationMethod (doc exampleCrossListed)
     = Some (orEmpty (verificationMethod (doc exampleDocument))
             @ contextMethods ''did:vda:0xabc''
                 (generateContextHash asciiLowerCase rev ''did:vda:0xabc'' ''My App'') exampleKeys)"
    and ka: "keyAgreement (doc exampleCrossListed)
     = Some (orEmpty (keyAgreement (doc exampleDocument))
             @ [RefString (contextEntryId ''did:vda:0xabc''
                  (generateContextHash asciiLowerCase rev ''did:vda:0xabc'' ''My App'') ''asym'')])"
    and sv: "service (doc exampleCrossListed)
     = Some (orEmpty (service (doc exampleDocument))
             @ contextServices ''did:vda:0xabc''
                 (generateContextHash asciiLowerCase rev ''did:vda:0xabc'' ''My App'') exampleEndpoints)"
    and am: "assertionMethod (doc exampleCrossListed)
     = Some (orEmpty (assertionMethod (doc exampleLinked)) @
         [RefString (contextEntryId ''did:vda:0xabc''
            (generateContextHash asciiLowerCase rev ''did:vda:0xabc'' ''My App'') ''asym'')])"
    by (simp_all add: exampleCrossListed_def exampleLinked_collections)
  have some: "\<exists>entry \<in> set (orEmpty (verificationMethod (doc exampleDocument))
             @ contextMethods ''did:vda:0xabc''
                 (generateContextHash asciiLowerCase rev ''did:vda:0xabc'' ''My App'') exampleKeys).
     sublist (contextDid (id_doc (doc exampleCrossListed))
                (generateContextHash asciiLowerCase rev (id_doc (doc exampleCrossListed)) ''My App''))
       (id_vm entry)"
    using exampleLinked_has_method by (simp add: id exampleLinked_id)
  note r = removeContext_match
    [OF vm am ka sv regexLiteral_contextDidPattern [OF p] some]
  have ne: "contextEntryId d h ''asym'' \<noteq> contextEntryId d h ''sign''" for d h
    by (simp add: contextEntryId_def)
  show ?thesis
    using r by (simp add: id orEmpty_def ne)
qed

lemma removeContext_absent_collection:
  assumes p1: "plainText (id_doc (doc this))"
    and p2: "plainText (generateContextHash toLowerCase hash (id_doc (doc this)) contextName)"
    and vm: "verificationMethod (doc this) = Some vms"
    and some: "\<exists>entry \<in> set vms. sublist
                 (contextDid (id_doc (doc this))
                    (generateContextHash toLowerCase hash (id_doc (doc this)) contextName)) (id_vm entry)"
    and gone: "assertionMethod (doc this) = None \<or> keyAgreement (doc this) = None
               \<or> service (doc this) = None"
  shows "fst (removeContext toLowerCase hash this contextName) = Inl TypeError"
proof -
  have "find (\<lambda>entry. sublist (contextDid (id_doc (doc this))
          (generateContextHash toLowerCase hash (id_doc (doc this)) contextName)) (id_vm entry)) vms \<noteq> None"
    using some by (auto simp: find_None_iff)
  then show ?thesis
    using vm gone regexLiteral_contextDidPattern [OF p1 p2]
    by (auto simp: removeContext_def Let_def split: option.splits)
qed

subsection \<open>A removal that raises half way\<close>

lemma removeContext_raises_at_keyAgreement:
  assumes p1: "plainText (id_doc (doc this))"
    and p2: "plainText (generateContextHash toLowerCase hash (id_doc (doc this)) contextName)"
    and vm: "verificationMethod (doc this) = Some vms"
    and some: "\<exists>entry \<in> set vms. sublist
                 (contextDid (id_doc (doc this))
                    (generateContextHash toLowerCase hash (id_doc (doc this)) contextName)) (id_vm entry)"
    and am: "assertionMethod (doc this) = Some ams"
    and ka: "keyAgreement (doc this) = None"
  shows "removeContext toLowerCase hash this contextName
         = (Inl TypeError,
            this\<lparr>doc := (doc this)\<lparr>
              verificationMethod := Some (filter (\<lambda>entry. \<not> sublist
                 (contextDid (id_doc (doc this))
                    (generateContextHash toLowerCase hash (id_doc (doc this)) contextName)) (id_vm entry)) vms),
              assertionMethod := Some (filter (\<lambda>entry. entry \<noteq> RefString
                 (contextEntryId (id_doc (doc this))
                    (generateContextHash toLowerCase hash (id_doc (doc this)) contextName) ''sign''))
                 ams)\<rparr>\<rparr>)"
proof -
  have "find (\<lambda>entry. sublist (contextDid (id_doc (doc this))
          (generateContextHash toLowerCase hash (id_doc (doc this)) contextName)) (id_vm entry)) vms \<noteq> None"
    using some by (auto simp: find_None_iff)
  then show ?thesis
    using vm am ka regexLiteral_contextDidPattern [OF p1 p2]
    by (simp add: removeContext_def Let_def)
qed

text \<open>
  On the constructor's document with the signing key of a context added and nothing else,
  \<^verbatim>\<open>removeContext\<close> raises at the absent \<^verbatim>\<open>keyAgreement\<close> collection; by then the
  verification methods have been filtered.
\<close>

lemma removeContext_raises_without_keyAgreement:
  "keyAgreement (doc exampleSignOnly) = None
   \<and> length (orEmpty (verificationMethod (doc exampleSignOnly))) = 2
   \<and> fst (removeContext asciiLowerCase rev exampleSignOnly ''My App'') = Inl TypeError
   \<and> verificationMethod (doc (snd (removeContext asciiLowerCase rev exampleSignOnly ''My App'')))
      = verificationMethod (doc exampleDocument)"
proof -
  define h where "h = generateContextHash asciiLowerCase rev ''did:vda:0xabc'' ''My App''"
  define key where "key = \<lparr>id_vm = contextEntryId ''did:vda:0xabc'' h ''sign'',
      type_vm = ''EcdsaSecp256k1VerificationKey2019'',
      controller_vm = ''did:vda:0xabc'', publicKeyHex = Some ''0x970c''\<rparr>"
  have id0: "id_doc (doc exampleDocument) = ''did:vda:0xabc''"
    by (simp add: exampleDocument_def)
  have d: "doc exampleSignOnly = (doc exampleDocument)\<lparr>
      verificationMethod := Some (orEmpty (verificationMethod (doc exampleDocument)) @ [key]),
      assertionMethod := Some (orEmpty (assertionMethod (doc exampleDocument))
         @ [RefString (contextEntryId ''did:vda:0xabc'' h ''sign'')])\<rparr>"
    by (simp add: exampleSignOnly_def addContextSignKey_def Let_def id0 h_def key_def)
  have id: "id_doc (doc exampleSignOnly) = ''did:vda:0xabc''"
    by (simp add: d id0)
  have p: "plainText (id_doc (doc exampleSignOnly))"
    "plainText (generateContextHash asciiLowerCase rev (id_doc (doc exampleSignOnly)) ''My App'')"
    using example_plain_id example_plain_hash by (simp_all add: id id0)
  have vm: "verificationMethod (doc exampleSignOnly)
      = Some (orEmpty (verificationMethod (doc exampleDocument)) @ [key])"
    and am: "assertionMethod (doc exampleSignOnly)
      = Some (orEmpty (assertionMethod (doc exampleDocument))
         @ [RefString (contextEntryId ''did:vda:0xabc'' h ''sign'')])"
    and ka: "keyAgreement (doc exampleSignOnly) = None"
    by (simp_all add: d) (simp add: exampleDocument_def)
  have m: "sublist (contextDid ''did:vda:0xabc'' h) (id_vm key)"
    by (simp add: key_def sublist_contextEntryId)
  have some: "\<exists>entry \<in> set (orEmpty (verificationMethod (doc exampleDocument)) @ [key]).
      sublist (contextDid (id_doc (doc exampleSignOnly))
                 (generateContextHash asciiLowerCase rev (id_doc (doc exampleSignOnly)) ''My App''))
        (id_vm entry)"
    using m by (simp add: id h_def)
  have none: "\<forall>entry \<in> set (orEmpty (verificationMethod (doc exampleDocument))).
      \<not> sublist (contextDid ''did:vda:0xabc'' h) (id_vm entry)"
    using example_no_method by (simp add: list_all_iff id0 h_def)
  have f: "filter (\<lambda>entry. \<not> sublist (contextDid ''did:vda:0xabc'' h) (id_vm entry))
             (orEmpty (verificationMethod (doc exampleDocument)) @ [key])
           = orEmpty (verificationMethod (doc exampleDocument))"
    using none m by (simp add: filter_id_conv)
  note r = removeContext_raises_at_keyAgreement [OF p vm some am ka]
  have a: "fst (removeContext asciiLowerCase rev exampleSignOnly ''My App'') = Inl TypeError"
    by (simp add: r)
  have b: "verificationMethod (doc (snd (removeContext asciiLowerCase rev exampleSignOnly ''My App'')))
      = verificationMethod (doc exampleDocument)"
    using f by (simp add: r id h_def [symmetric] del: filter_append)
      (simp add: exampleDocument_def orEmpty_def)
  have c: "length (orEmpty (verificationMethod (doc exampleSignOnly))) = 2"
    by (simp add: vm) (simp add: exampleDocument_def orEmpty_def)
  from ka c a b show ?thesis
    by blast
qed

subsection \<open>Locating service endpoints\<close>

lemma find_append_none:
  assumes "\<forall>x \<in> set xs. \<not> P x"
  shows "find P (xs @ ys) = find P ys"
  using assms by (induction xs) simp_all

lemma addContext_remove_raises:
  assumes "fst (removeContext toLowerCase hash this contextName) = Inl e"
  shows "fst (addContext toLowerCase hash this contextName keys endpoints) = Inl e"
  using assms by (cases "removeContext toLowerCase hash this contextName") (simp add: addContext_def)

lemma addContext_services:
  assumes p1: "plainText (id_doc (doc this))"
    and p2: "plainText (generateContextHash toLowerCase hash (id_doc (doc this)) contextName)"
    and ok: "fst (addContext toLowerCase hash this contextName keys endpoints) = Inr ()"
    and tidy: "(\<exists>entry \<in> set (orEmpty (verificationMethod (doc this))). sublist
                  (contextDid (id_doc (doc this))
                     (generateContextHash toLowerCase hash (id_doc (doc this)) contextName)) (id_vm entry))
               \<or> (\<forall>entry \<in> set (orEmpty (service (doc this))). \<not> sublist
                  (contextDid (id_doc (doc this))
                     (generateContextHash toLowerCase hash (id_doc (doc this)) contextName)) (id_svc entry))"
  shows "\<exists>pre. service (doc (snd (addContext toLowerCase hash this contextName keys endpoints)))
               = Some (pre @ contextServices (id_doc (doc this))
                   (generateContextHash toLowerCase hash (id_doc (doc this)) contextName) endpoints)
          \<and> (\<forall>entry \<in> set pre. \<not> sublist
                  (contextDid (id_doc (doc this))
                     (generateContextHash toLowerCase hash (id_doc (doc this)) contextName)) (id_svc entry))
          \<and> id_doc (doc (snd (addContext toLowerCase hash this contextName keys endpoints)))
            = id_doc (doc this)"
proof (cases "\<exists>entry \<in> set (orEmpty (verificationMethod (doc this))). sublist
                  (contextDid (id_doc (doc this))
                     (generateContextHash toLowerCase hash (id_doc (doc this)) contextName)) (id_vm entry)")
  case False
  then have none: "list_all (\<lambda>entry. \<not> sublist
                   (contextDid (id_doc (doc this))
                      (generateContextHash toLowerCase hash (id_doc (doc this)) contextName)) (id_vm entry))
                   (orEmpty (verificationMethod (doc this)))"
    by (simp add: list_all_iff)
  from False tidy have pre: "\<forall>entry \<in> set (orEmpty (service (doc this))). \<not> sublist
                  (contextDid (id_doc (doc this))
                     (generateContextHash toLowerCase hash (id_doc (doc this)) contextName)) (id_svc entry)"
    by blast
  show ?thesis
    using addContext_absent [OF p1 p2 none, of keys endpoints] pre
    by (simp add: withContext_def Let_def)
next
  case True
  then obtain vms where vm: "verificationMethod (doc this) = Some vms"
    and some: "\<exists>entry \<in> set vms. sublist
                  (contextDid (id_doc (doc this))
                     (generateContextHash toLowerCase hash (id_doc (doc this)) contextName)) (id_vm entry)"
    by (cases "verificationMethod (doc this)") (simp_all add: orEmpty_def)
  have present: "\<not> (assertionMethod (doc this) = None \<or> keyAgreement (doc this) = None
               \<or> service (doc this) = None)"
  proof
    assume "assertionMethod (doc this) = None \<or> keyAgreement (doc this) = None
               \<or> service (doc this) = None"
    then have "fst (removeContext toLowerCase hash this contextName) = Inl TypeError"
      by (rule removeContext_absent_collection [OF p1 p2 vm some])
    then have "fst (addContext toLowerCase hash this contextName keys endpoints) = Inl TypeError"
      by (rule addContext_remove_raises)
    with ok show False by simp
  qed
  then obtain ams kas svcs where am: "assertionMethod (doc this) = Some ams"
    and ka: "keyAgreement (doc this) = Some kas" and sv: "service (doc this) = Some svcs"
    by auto
  note rm = removeContext_match [OF vm am ka sv regexLiteral_contextDidPattern [OF p1 p2] some]
  show ?thesis
    using addContext_after_remove [OF rm, of keys endpoints]
    by (simp add: withContext_def Let_def orEmpty_def)
qed

lemma find_contextServices:
  "find (\<lambda>entry. id_svc entry = contextEntryId did h (endpointTypeString endpointType))
     (contextServices did h endpoints)
   = map_option (\<lambda>e. \<lparr>id_svc = contextEntryId did h (endpointTypeString endpointType),
                       type_svc = type_ep e, serviceEndpoint = endpointUri e\<rparr>)
       (suppliedEndpoint endpoints endpointType)"
  by (cases endpointType)
    (simp_all add: contextServices_def suppliedEndpoint_def contextEntryId_def
      split: option.splits)

lemma locateServiceEndpoint_present:
  assumes "service (doc this) = Some svcs"
  shows "locateServiceEndpoint toLowerCase hash this contextName endpointType
         = Inr (find (\<lambda>entry. id_svc entry
                  = contextEntryId (id_doc (doc this))
                      (generateContextHash toLowerCase hash (id_doc (doc this)) contextName)
                      (endpointTypeString endpointType)) svcs)"
  using assms by (simp add: locateServiceEndpoint_def Let_def)

lemma locateServiceEndpoint_after_addContext:
  assumes p1: "plainText (id_doc (doc this))"
    and p2: "plainText (generateContextHash toLowerCase hash (id_doc (doc this)) contextName)"
    and ok: "fst (addContext toLowerCase hash this contextName keys endpoints) = Inr ()"
    and tidy: "(\<exists>entry \<in> set (orEmpty (verificationMethod (doc this))). sublist
                  (contextDid (id_doc (doc this))
                     (generateContextHash toLowerCase hash (id_doc (doc this)) contextName)) (id_vm entry))
               \<or> (\<forall>entry \<in> set (orEmpty (service (doc this))). \<not> sublist
                  (contextDid (id_doc (doc this))
                     (generateContextHash toLowerCase hash (id_doc (doc this)) contextName)) (id_svc entry))"
  shows "locateServiceEndpoint toLowerCase hash (snd (addContext toLowerCase hash this contextName keys endpoints))
           contextName endpointType
         = Inr (map_option (\<lambda>e. \<lparr>id_svc = contextEntryId (id_doc (doc this))
                      (generateContextHash toLowerCase hash (id_doc (doc this)) contextName)
                      (endpointTypeString endpointType),
                    type_svc = type_ep e, serviceEndpoint = endpointUri e\<rparr>)
                 (suppliedEndpoint endpoints endpointType))"
proof -
  obtain pre where sv: "service (doc (snd (addContext toLowerCase hash this contextName keys endpoints)))
               = Some (pre @ contextServices (id_doc (doc this))
                   (generateContextHash toLowerCase hash (id_doc (doc this)) contextName) endpoints)"
    and pre: "\<forall>entry \<in> set pre. \<not> sublist
                  (contextDid (id_doc (doc this))
                     (generateContextHash toLowerCase hash (id_doc (doc this)) contextName)) (id_svc entry)"
    and id: "id_doc (doc (snd (addContext toLowerCase hash this contextName keys endpoints)))
            = id_doc (doc this)"
    using addContext_services [OF p1 p2 ok tidy] by blast
  have "\<forall>entry \<in> set pre. \<not> id_svc entry
          = contextEntryId (id_doc (doc this))
              (generateContextHash toLowerCase hash (id_doc (doc this)) contextName)
              (endpointTypeString endpointType)"
    using pre sublist_contextEntryId by metis
  then show ?thesis
    using locateServiceEndpoint_present [OF sv, of toLowerCase hash contextName endpointType]
    by (simp add: id find_append_none find_contextServices)
qed

text \<open>
  What the lookup does where it does return. On a document whose \<^verbatim>\<open>service\<close> collection is
  present it returns the first service entry whose id is \<^verbatim>\<open><did>?context=<hash>#<type>\<close>,
  and \<^verbatim>\<open>undefined\<close> when there is none. After an \<^verbatim>\<open>addContext\<close> that succeeded on a document
  which held no service entry of the context unless it also held a verification method of
  it (DID and hash free of regular-expression metacharacters), it returns, for each
  endpoint type, the entry made from the endpoint supplied for that type, and \<^verbatim>\<open>undefined\<close>
  for a type that was not supplied.
\<close>

lemma locateServiceEndpoint_results:
  "(service (doc this) = Some svcs \<longrightarrow>
      locateServiceEndpoint toLowerCase hash this contextName endpointType
      = Inr (find (\<lambda>entry. id_svc entry
               = contextEntryId (id_doc (doc this))
                   (generateContextHash toLowerCase hash (id_doc (doc this)) contextName)
                   (endpointTypeString endpointType)) svcs)
      \<and> ((\<forall>entry \<in> set svcs. id_svc entry
               \<noteq> contextEntryId (id_doc (doc this))
                   (generateContextHash toLowerCase hash (id_doc (doc this)) contextName)
                   (endpointTypeString endpointType))
           \<longrightarrow> locateServiceEndpoint toLowerCase hash this contextName endpointType = Inr None))
   \<and> (plainText (id_doc (doc this))
        \<and> plainText (generateContextHash toLowerCase hash (id_doc (doc this)) contextName)
        \<and> fst (addContext toLowerCase hash this contextName keys endpoints) = Inr ()
        \<and> ((\<exists>entry \<in> set (orEmpty (verificationMethod (doc this))). sublist
                  (contextDid (id_doc (doc this))
                     (generateContextHash toLowerCase hash (id_doc (doc this)) contextName)) (id_vm entry))
            \<or> (\<forall>entry \<in> set (orEmpty (service (doc this))). \<not> sublist
                  (contextDid (id_doc (doc this))
                     (generateContextHash toLowerCase hash (id_doc (doc this)) contextName)) (id_svc entry)))
        \<longrightarrow> locateServiceEndpoint toLowerCase hash (snd (addContext toLowerCase hash this contextName keys endpoints))
              contextName endpointType
            = Inr (map_option (\<lambda>e. \<lparr>id_svc = contextEntryId (id_doc (doc this))
                      (generateContextHash toLowerCase hash (id_doc (doc this)) contextName)
                      (endpointTypeString endpointType),
                    type_svc = type_ep e, serviceEndpoint = endpointUri e\<rparr>)
                 (suppliedEndpoint endpoints endpointType)))"
proof (intro conjI impI)
  assume sv: "service (doc this) = Some svcs"
  show loc: "locateServiceEndpoint toLowerCase hash this contextName endpointType
      = Inr (find (\<lambda>entry. id_svc entry
               = contextEntryId (id_doc (doc this))
                   (generateContextHash toLowerCase hash (id_doc (doc this)) contextName)
                   (endpointTypeString endpointType)) svcs)"
    using sv by (rule locateServiceEndpoint_present)
  assume "\<forall>entry \<in> set svcs. id_svc entry
               \<noteq> contextEntryId (id_doc (doc this))
                   (generateContextHash toLowerCase hash (id_doc (doc this)) contextName)
                   (endpointTypeString endpointType)"
  then have "find (\<lambda>entry. id_svc entry
               = contextEntryId (id_doc (doc this))
                   (generateContextHash toLowerCase hash (id_doc (doc this)) contextName)
                   (endpointTypeString endpointType)) svcs = None"
    by (simp add: find_None_iff)
  with loc show "locateServiceEndpoint toLowerCase hash this contextName endpointType = Inr None"
    by simp
next
  assume "plainText (id_doc (doc this))
        \<and> plainText (generateContextHash toLowerCase hash (id_doc (doc this)) contextName)
        \<and> fst (addContext toLowerCase hash this contextName keys endpoints) = Inr ()
        \<and> ((\<exists>entry \<in> set (orEmpty (verificationMethod (doc this))). sublist
                  (contextDid (id_doc (doc this))
                     (generateContextHash toLowerCase hash (id_doc (doc this)) contextName)) (id_vm entry))
            \<or> (\<forall>entry \<in> set (orEmpty (service (doc this))). \<not> sublist
                  (contextDid (id_doc (doc this))
                     (generateContextHash toLowerCase hash (id_doc (doc this)) contextName)) (id_svc entry)))"
  then show "locateServiceEndpoint toLowerCase hash (snd (addContext toLowerCase hash this contextName keys endpoints))
              contextName endpointType
            = Inr (map_option (\<lambda>e. \<lparr>id_svc = contextEntryId (id_doc (doc this))
                      (generateContextHash toLowerCase hash (id_doc (doc this)) contextName)
                      (endpointTypeString endpointType),
                    type_svc = type_ep e, serviceEndpoint = endpointUri e\<rparr>)
                 (suppliedEndpoint endpoints endpointType))"
    using locateServiceEndpoint_after_addContext by blast
qed

lemma example_addContext_ok:
  "fst (addContext asciiLowerCase rev exampleDocument ''My App'' exampleKeys exampleEndpoints) = Inr ()"
  using addContext_absent [OF example_plain_id example_plain_hash example_no_method,
      of exampleKeys exampleEndpoints]
  by simp

lemma locateServiceEndpoint_results_example:
  "plainText (id_doc (doc exampleDocument))
   \<and> plainText (generateContextHash asciiLowerCase rev (id_doc (doc exampleDocument)) ''My App'')
   \<and> fst (addContext asciiLowerCase rev exampleDocument ''My App'' exampleKeys exampleEndpoints) = Inr ()
   \<and> orEmpty (service (doc exampleDocument)) = []
   \<and> locateServiceEndpoint asciiLowerCase rev
        (snd (addContext asciiLowerCase rev exampleDocument ''My App'' exampleKeys exampleEndpoints))
        ''My App'' DATABASE
      = Inr (Some \<lparr>id_svc = contextEntryId ''did:vda:0xabc''
                      (generateContextHash asciiLowerCase rev ''did:vda:0xabc'' ''My App'') ''database'',
                   type_svc = ''VeridaDatabase'', serviceEndpoint = ''https://db.example/''\<rparr>)
   \<and> locateServiceEndpoint asciiLowerCase rev
        (snd (addContext asciiLowerCase rev exampleDocument ''My App'' exampleKeys exampleEndpoints))
        ''My App'' STORAGE
      = Inr None"
proof -
  have sv: "\<forall>entry \<in> set (orEmpty (service (doc exampleDocument))). \<not> sublist
          (contextDid (id_doc (doc exampleDocument))
             (generateContextHash asciiLowerCase rev (id_doc (doc exampleDocument)) ''My App''))
          (id_svc entry)"
    by (simp add: exampleDocument_def orEmpty_def)
  have prem: "plainText (id_doc (doc exampleDocument))
        \<and> plainText (generateContextHash asciiLowerCase rev (id_doc (doc exampleDocument)) ''My App'')
        \<and> fst (addContext asciiLowerCase rev exampleDocument ''My App'' exampleKeys exampleEndpoints) = Inr ()
        \<and> ((\<exists>entry \<in> set (orEmpty (verificationMethod (doc exampleDocument))). sublist
                  (contextDid (id_doc (doc exampleDocument))
                     (generateContextHash asciiLowerCase rev (id_doc (doc exampleDocument)) ''My App''))
                  (id_vm entry))
            \<or> (\<forall>entry \<in> set (orEmpty (service (doc exampleDocument))). \<not> sublist
                  (contextDid (id_doc (doc exampleDocument))
                     (generateContextHash asciiLowerCase rev (id_doc (doc exampleDocument)) ''My App''))
                  (id_svc entry)))"
    using example_plain_id example_plain_hash example_addContext_ok sv by blast
  have id: "id_doc (doc exampleDocument) = ''did:vda:0xabc''"
    by (simp add: exampleDocument_def)
  note db = locateServiceEndpoint_results
    [of exampleDocument "[]" asciiLowerCase rev "''My App''" DATABASE exampleKeys exampleEndpoints,
      THEN conjunct2, THEN mp, OF prem]
  note st = locateServiceEndpoint_results
    [of exampleDocument "[]" asciiLowerCase rev "''My App''" STORAGE exampleKeys exampleEndpoints,
      THEN conjunct2, THEN mp, OF prem]
  have a: "locateServiceEndpoint asciiLowerCase rev
        (snd (addContext asciiLowerCase rev exampleDocument ''My App'' exampleKeys exampleEndpoints))
        ''My App'' DATABASE
      = Inr (Some \<lparr>id_svc = contextEntryId ''did:vda:0xabc''
                      (generateContextHash asciiLowerCase rev ''did:vda:0xabc'' ''My App'') ''database'',
                   type_svc = ''VeridaDatabase'', serviceEndpoint = ''https://db.example/''\<rparr>)"
    using db by (simp add: id suppliedEndpoint_def exampleEndpoints_def)
  have b: "locateServiceEndpoint asciiLowerCase rev
        (snd (addContext asciiLowerCase rev exampleDocument ''My App'' exampleKeys exampleEndpoints))
        ''My App'' STORAGE
      = Inr None"
    using st by (simp add: suppliedEndpoint_def exampleEndpoints_def)
  have em: "orEmpty (service (doc exampleDocument)) = []"
    by (simp add: exampleDocument_def orEmpty_def)
  show ?thesis
    using example_plain_id example_plain_hash example_addContext_ok em a b by blast
qed

text \<open>
  \<^verbatim>\<open>addContext\<close> removes the earlier records of a context only when one of its verification
  methods is on the document. A document that carries a database service entry of the
  context and no key of it (\<^verbatim>\<open>addContextService\<close> alone makes one) keeps that entry, the
  new one is appended behind it, and the lookup returns the old endpoint, not the one
  supplied.
\<close>

lemma locateServiceEndpoint_returns_stale_endpoint:
  "fst (addContext asciiLowerCase rev exampleOrphan ''My App'' exampleKeys exampleEndpoints) = Inr ()
   \<and> endpointUri (database exampleEndpoints) = ''https://db.example/''
   \<and> locateServiceEndpoint asciiLowerCase rev
        (snd (addContext asciiLowerCase rev exampleOrphan ''My App'' exampleKeys exampleEndpoints))
        ''My App'' DATABASE
      = Inr (Some \<lparr>id_svc = contextEntryId ''did:vda:0xabc''
                      (generateContextHash asciiLowerCase rev ''did:vda:0xabc'' ''My App'') ''database'',
                   type_svc = ''VeridaDatabase'', serviceEndpoint = ''https://old.example/''\<rparr>)"
proof -
  have d: "doc exampleOrphan = (doc exampleDocument)\<lparr>service := Some
      [\<lparr>id_svc = contextEntryId ''did:vda:0xabc''
                      (generateContextHash asciiLowerCase rev ''did:vda:0xabc'' ''My App'') ''database'',
        type_svc = ''VeridaDatabase'', serviceEndpoint = ''https://old.example/''\<rparr>]\<rparr>"
    by (simp add: exampleOrphan_def addContextService_def Let_def orEmpty_def)
      (simp add: exampleDocument_def)
  have id: "id_doc (doc exampleOrphan) = ''did:vda:0xabc''"
    by (simp add: d) (simp add: exampleDocument_def)
  have vm: "verificationMethod (doc exampleOrphan) = verificationMethod (doc exampleDocument)"
    by (simp add: d)
  have p: "plainText (id_doc (doc exampleOrphan))"
    "plainText (generateContextHash asciiLowerCase rev (id_doc (doc exampleOrphan)) ''My App'')"
    using example_plain_id example_plain_hash by (simp_all add: id) (simp_all add: exampleDocument_def)
  have none: "list_all (\<lambda>entry. \<not> sublist
      (contextDid (id_doc (doc exampleOrphan))
         (generateContextHash asciiLowerCase rev (id_doc (doc exampleOrphan)) ''My App'')) (id_vm entry))
      (orEmpty (verificationMethod (doc exampleOrphan)))"
    using example_no_method by (simp add: id vm) (simp add: exampleDocument_def)
  note add = addContext_absent [OF p none, of exampleKeys exampleEndpoints]
  have sv: "service (doc (snd (addContext asciiLowerCase rev exampleOrphan ''My App'' exampleKeys exampleEndpoints)))
     = Some ([\<lparr>id_svc = contextEntryId ''did:vda:0xabc''
                      (generateContextHash asciiLowerCase rev ''did:vda:0xabc'' ''My App'') ''database'',
        type_svc = ''VeridaDatabase'', serviceEndpoint = ''https://old.example/''\<rparr>]
        @ contextServices ''did:vda:0xabc''
            (generateContextHash asciiLowerCase rev ''did:vda:0xabc'' ''My App'') exampleEndpoints)"
    by (simp add: add withContext_def Let_def id) (simp add: d orEmpty_def)
  have id': "id_doc (doc (snd (addContext asciiLowerCase rev exampleOrphan ''My App'' exampleKeys exampleEndpoints)))
      = ''did:vda:0xabc''"
    by (simp add: add id)
  have "locateServiceEndpoint asciiLowerCase rev
        (snd (addContext asciiLowerCase rev exampleOrphan ''My App'' exampleKeys exampleEndpoints))
        ''My App'' DATABASE
      = Inr (Some \<lparr>id_svc = contextEntryId ''did:vda:0xabc''
                      (generateContextHash asciiLowerCase rev ''did:vda:0xabc'' ''My App'') ''database'',
                   type_svc = ''VeridaDatabase'', serviceEndpoint = ''https://old.example/''\<rparr>)"
    using locateServiceEndpoint_present [OF sv, of asciiLowerCase rev "''My App''" DATABASE]
    by (simp add: id')
  moreover have "fst (addContext asciiLowerCase rev exampleOrphan ''My App'' exampleKeys exampleEndpoints) = Inr ()"
    by (simp add: add)
  moreover have "endpointUri (database exampleEndpoints) = ''https://db.example/''"
    by (simp add: exampleEndpoints_def)
  ultimately show ?thesis
    by blast
qed

lemma locateServiceEndpoint_absent_collection:
  assumes "service (doc this) = None"
  shows "locateServiceEndpoint toLowerCase hash this contextName endpointType = Inl TypeError"
  using assms by (simp add: locateServiceEndpoint_def Let_def)

lemma constructor_no_service:
  assumes "constructor toLowerCase (DocString did) publicKeyHex' = Inr this"
  shows "service (doc this) = None"
  using assms by (auto simp: constructor_def Let_def split: option.splits if_splits)

text \<open>
  C8. \<^verbatim>\<open>locateServiceEndpoint\<close> reads \<^verbatim>\<open>this.doc.service!.find(...)\<close>: the non-null
  assertion is erased at compile time, so on a document whose \<^verbatim>\<open>service\<close> collection is
  absent the call raises \<^verbatim>\<open>TypeError\<close>, for every context name and endpoint type, where
  the lookup is to return \<^verbatim>\<open>undefined\<close> without throwing. Every document the constructor
  builds from a DID string is such a document: it has a root verification method and an
  assertion method and no \<^verbatim>\<open>service\<close> collection.
\<close>

theorem locateServiceEndpoint_without_services:
  "(service (doc this) = None
      \<longrightarrow> locateServiceEndpoint toLowerCase hash this contextName endpointType = Inl TypeError)
   \<and> (constructor toLowerCase (DocString did) publicKeyHex' = Inr that
      \<longrightarrow> locateServiceEndpoint toLowerCase hash that contextName endpointType = Inl TypeError)"
  using locateServiceEndpoint_absent_collection constructor_no_service by blast

theorem locateServiceEndpoint_without_services_witness:
  "constructor asciiLowerCase (DocString ''did:vda:0xABC'') (Some examplePublicKey)
     = Inr exampleDocument
   \<and> service (doc exampleDocument) = None
   \<and> locateServiceEndpoint asciiLowerCase rev exampleDocument ''My App'' DATABASE = Inl TypeError
   \<and> locateServiceEndpoint asciiLowerCase rev exampleDocument ''My App'' MESSAGING = Inl TypeError"
proof -
  have l: "asciiLowerCase ''did:vda:0xABC'' = ''did:vda:0xabc''"
    by code_simp
  have c: "constructor asciiLowerCase (DocString ''did:vda:0xABC'') (Some examplePublicKey)
             = Inr exampleDocument"
    by (simp add: constructor_def l Let_def) (simp add: examplePublicKey_def exampleDocument_def)
  have n: "service (doc exampleDocument) = None"
    by (simp add: exampleDocument_def)
  note t = locateServiceEndpoint_without_services
    [where toLowerCase = asciiLowerCase and hash = rev and contextName = "''My App''"
       and did = "''did:vda:0xABC''" and publicKeyHex' = "Some examplePublicKey"
       and that = exampleDocument]
  have a: "locateServiceEndpoint asciiLowerCase rev exampleDocument ''My App'' DATABASE
             = Inl TypeError"
    using t [where endpointType = DATABASE] c by blast
  have b: "locateServiceEndpoint asciiLowerCase rev exampleDocument ''My App'' MESSAGING
             = Inl TypeError"
    using t [where endpointType = MESSAGING and this = exampleDocument] n by blast
  show ?thesis
    using c n a b by blast
qed

section \<open>The document id\<close>

lemma removeContext_keeps:
  "id_doc (doc (snd (removeContext toLowerCase hash this contextName))) = id_doc (doc this)
   \<and> set (orEmpty (verificationMethod (doc (snd (removeContext toLowerCase hash this contextName)))))
       \<subseteq> set (orEmpty (verificationMethod (doc this)))
   \<and> set (orEmpty (service (doc (snd (removeContext toLowerCase hash this contextName)))))
       \<subseteq> set (orEmpty (service (doc this)))"
  by (auto simp: removeContext_def Let_def orEmpty_def split: option.splits)

lemma prefix_contextEntryId: "prefix did (contextEntryId did h frag)"
  by (simp add: contextEntryId_def)

lemma addContext_entries:
  assumes ok: "fst (addContext toLowerCase hash this contextName keys endpoints) = Inr ()"
  shows "id_doc (doc (snd (addContext toLowerCase hash this contextName keys endpoints))) = id_doc (doc this)
   \<and> (\<forall>entry \<in> set (orEmpty (verificationMethod
           (doc (snd (addContext toLowerCase hash this contextName keys endpoints))))).
         entry \<in> set (orEmpty (verificationMethod (doc this)))
         \<or> prefix (id_doc (doc this)) (id_vm entry))
   \<and> (\<forall>entry \<in> set (orEmpty (service
           (doc (snd (addContext toLowerCase hash this contextName keys endpoints))))).
         entry \<in> set (orEmpty (service (doc this)))
         \<or> prefix (id_doc (doc this)) (id_svc entry))"
proof -
  obtain r this0 where rm: "removeContext toLowerCase hash this contextName = (r, this0)"
    by (cases "removeContext toLowerCase hash this contextName")
  with ok obtain b where r: "r = Inr b"
    by (cases r) (simp_all add: addContext_def)
  note keeps = removeContext_keeps [of toLowerCase hash this contextName, unfolded rm snd_conv]
  note add = addContext_after_remove [OF rm [unfolded r], of keys endpoints]
  have id: "id_doc (doc this0) = id_doc (doc this)"
    using keeps by simp
  have vm: "set (orEmpty (verificationMethod (doc this0)))
              \<subseteq> set (orEmpty (verificationMethod (doc this)))"
    and sv: "set (orEmpty (service (doc this0))) \<subseteq> set (orEmpty (service (doc this)))"
    using keeps by simp_all
  have "\<forall>entry \<in> set (contextMethods (id_doc (doc this))
           (generateContextHash toLowerCase hash (id_doc (doc this)) contextName) keys).
          prefix (id_doc (doc this)) (id_vm entry)"
    by (simp add: contextMethods_def prefix_contextEntryId)
  moreover have "\<forall>entry \<in> set (contextServices (id_doc (doc this))
           (generateContextHash toLowerCase hash (id_doc (doc this)) contextName) endpoints).
          prefix (id_doc (doc this)) (id_svc entry)"
    by (auto simp: contextServices_def prefix_contextEntryId split: option.splits)
  ultimately show ?thesis
    using vm sv by (auto simp: add withContext_def Let_def id orEmpty_def)
qed

lemma addContext_keeps_id:
  "id_doc (doc (snd (addContext toLowerCase hash this contextName keys endpoints))) = id_doc (doc this)"
proof -
  obtain r this0 where rm: "removeContext toLowerCase hash this contextName = (r, this0)"
    by (cases "removeContext toLowerCase hash this contextName")
  note keeps = removeContext_keeps [of toLowerCase hash this contextName, unfolded rm snd_conv]
  show ?thesis
  proof (cases r)
    case (Inl e)
    then show ?thesis
      using rm keeps by (simp add: addContext_def)
  next
    case (Inr b)
    then show ?thesis
      using addContext_after_remove [OF rm [unfolded Inr], of keys endpoints] keeps by simp
  qed
qed

lemma signProof_keeps_id:
  "id_doc (doc (snd (signProof signData this privateKey))) = id_doc (doc this)"
  by (simp add: signProof_def Let_def split: sum.splits)

text \<open>
  C9 (amended). From a bare DID and a public key of 132 characters the constructor makes
  the document whose id, controller, root verification method and assertion method are
  the lower-cased DID. From a document struct the constructor, and likewise \<^verbatim>\<open>import\<close>,
  takes the struct as it is with the id lower-cased: the entries it already holds keep
  their ids as given. No operation changes the id. Every entry that
  \<^verbatim>\<open>addContextService\<close>, \<^verbatim>\<open>addContextSignKey\<close>, \<^verbatim>\<open>addContextAsymKey\<close> or \<^verbatim>\<open>addContext\<close>
  appends has an id that starts with the document id.
\<close>

theorem document_id_lower_case:
  "(k = Some key \<and> key \<noteq> [] \<and> length key = 132 \<longrightarrow>
      constructor toLowerCase (DocString s) k
      = Inr \<lparr>doc = \<lparr>id_doc = toLowerCase s, controller = toLowerCase s,
                    verificationMethod = Some [\<lparr>id_vm = toLowerCase s,
                       type_vm = ''EcdsaSecp256k1VerificationKey2019'',
                       controller_vm = toLowerCase s, publicKeyHex = Some key\<rparr>],
                    assertionMethod = Some [RefString (toLowerCase s)],
                    keyAgreement = None, service = None, proof_doc = None\<rparr>,
             errors = []\<rparr>)
   \<and> constructor toLowerCase (DocStruct d) k
       = Inr \<lparr>doc = d\<lparr>id_doc := toLowerCase (id_doc d)\<rparr>, errors = []\<rparr>
   \<and> import_doc toLowerCase that d = that\<lparr>doc := d\<lparr>id_doc := toLowerCase (id_doc d)\<rparr>\<rparr>
   \<and> id_doc (doc (addContextService that h endpointType serviceType uri)) = id_doc (doc that)
   \<and> id_doc (doc (addContextSignKey that h pk)) = id_doc (doc that)
   \<and> id_doc (doc (addContextAsymKey that h pk)) = id_doc (doc that)
   \<and> id_doc (doc (snd (removeContext toLowerCase hash that contextName))) = id_doc (doc that)
   \<and> id_doc (doc (snd (addContext toLowerCase hash that contextName keys endpoints)))
       = id_doc (doc that)
   \<and> id_doc (doc (snd (signProof signData that privateKey))) = id_doc (doc that)
   \<and> prefix (id_doc (doc that))
        (id_svc (last (orEmpty (service
           (doc (addContextService that h endpointType serviceType uri))))))
   \<and> prefix (id_doc (doc that))
        (id_vm (last (orEmpty (verificationMethod (doc (addContextSignKey that h pk))))))
   \<and> prefix (id_doc (doc that))
        (id_vm (last (orEmpty (verificationMethod (doc (addContextAsymKey that h pk))))))
   \<and> (fst (addContext toLowerCase hash that contextName keys endpoints) = Inr () \<longrightarrow>
        (\<forall>entry \<in> set (orEmpty (verificationMethod
             (doc (snd (addContext toLowerCase hash that contextName keys endpoints))))).
           entry \<in> set (orEmpty (verificationMethod (doc that)))
           \<or> prefix (id_doc (doc that)) (id_vm entry))
        \<and> (\<forall>entry \<in> set (orEmpty (service
             (doc (snd (addContext toLowerCase hash that contextName keys endpoints))))).
           entry \<in> set (orEmpty (service (doc that)))
           \<or> prefix (id_doc (doc that)) (id_svc entry)))"
proof -
  have c1: "k = Some key \<and> key \<noteq> [] \<and> length key = 132 \<longrightarrow>
      constructor toLowerCase (DocString s) k
      = Inr \<lparr>doc = \<lparr>id_doc = toLowerCase s, controller = toLowerCase s,
                    verificationMethod = Some [\<lparr>id_vm = toLowerCase s,
                       type_vm = ''EcdsaSecp256k1VerificationKey2019'',
                       controller_vm = toLowerCase s, publicKeyHex = Some key\<rparr>],
                    assertionMethod = Some [RefString (toLowerCase s)],
                    keyAgreement = None, service = None, proof_doc = None\<rparr>,
             errors = []\<rparr>"
    by (simp add: constructor_def Let_def)
  have c2: "constructor toLowerCase (DocStruct d) k
       = Inr \<lparr>doc = d\<lparr>id_doc := toLowerCase (id_doc d)\<rparr>, errors = []\<rparr>"
    by (simp add: constructor_def)
  have c3: "import_doc toLowerCase that d
       = that\<lparr>doc := d\<lparr>id_doc := toLowerCase (id_doc d)\<rparr>\<rparr>"
    by (simp add: import_doc_def)
  have c4: "id_doc (doc (addContextService that h endpointType serviceType uri))
       = id_doc (doc that)"
    and c5: "id_doc (doc (addContextSignKey that h pk)) = id_doc (doc that)"
    and c6: "id_doc (doc (addContextAsymKey that h pk)) = id_doc (doc that)"
    by (simp_all add: addContextService_def addContextSignKey_def addContextAsymKey_def Let_def)
  have c7: "id_doc (doc (snd (removeContext toLowerCase hash that contextName)))
       = id_doc (doc that)"
    using removeContext_keeps [of toLowerCase hash that contextName] by simp
  have c8: "id_doc (doc (snd (addContext toLowerCase hash that contextName keys endpoints)))
       = id_doc (doc that)"
    by (rule addContext_keeps_id)
  have c9: "id_doc (doc (snd (signProof signData that privateKey))) = id_doc (doc that)"
    by (rule signProof_keeps_id)
  have c10: "prefix (id_doc (doc that))
        (id_svc (last (orEmpty (service
           (doc (addContextService that h endpointType serviceType uri))))))"
    and c11: "prefix (id_doc (doc that))
        (id_vm (last (orEmpty (verificationMethod (doc (addContextSignKey that h pk))))))"
    and c12: "prefix (id_doc (doc that))
        (id_vm (last (orEmpty (verificationMethod (doc (addContextAsymKey that h pk))))))"
    by (simp_all add: addContextService_def addContextSignKey_def addContextAsymKey_def
        Let_def orEmpty_def prefix_contextEntryId)
  have c13: "fst (addContext toLowerCase hash that contextName keys endpoints) = Inr () \<longrightarrow>
        (\<forall>entry \<in> set (orEmpty (verificationMethod
             (doc (snd (addContext toLowerCase hash that contextName keys endpoints))))).
           entry \<in> set (orEmpty (verificationMethod (doc that)))
           \<or> prefix (id_doc (doc that)) (id_vm entry))
        \<and> (\<forall>entry \<in> set (orEmpty (service
             (doc (snd (addContext toLowerCase hash that contextName keys endpoints))))).
           entry \<in> set (orEmpty (service (doc that)))
           \<or> prefix (id_doc (doc that)) (id_svc entry))"
    using addContext_entries [of toLowerCase hash that contextName keys endpoints] by blast
  from c1 c2 c3 c4 c5 c6 c7 c8 c9 c10 c11 c12 c13 show ?thesis
    by blast
qed

lemma example_constructor:
  "constructor asciiLowerCase (DocString ''did:vda:0xABC'') (Some examplePublicKey)
   = Inr exampleDocument"
proof -
  have l: "asciiLowerCase ''did:vda:0xABC'' = ''did:vda:0xabc''"
    by code_simp
  show ?thesis
    by (simp add: constructor_def l Let_def) (simp add: examplePublicKey_def exampleDocument_def)
qed

theorem document_id_lower_case_witness:
  "examplePublicKey \<noteq> [] \<and> length examplePublicKey = 132
   \<and> constructor asciiLowerCase (DocString ''did:vda:0xABC'') (Some examplePublicKey)
       = Inr exampleDocument
   \<and> id_doc (doc exampleDocument) = ''did:vda:0xabc''
   \<and> constructor asciiLowerCase (DocStruct exampleChecksumStruct) None
       = Inr \<lparr>doc = exampleChecksumStruct\<lparr>id_doc := ''did:vda:0xabc''\<rparr>, errors = []\<rparr>
   \<and> id_doc (doc (import_doc asciiLowerCase exampleDocument exampleChecksumStruct))
       = ''did:vda:0xabc''
   \<and> fst (addContext asciiLowerCase rev exampleDocument ''My App'' exampleKeys exampleEndpoints)
       = Inr ()
   \<and> id_doc (doc (snd (addContext asciiLowerCase rev exampleDocument ''My App''
         exampleKeys exampleEndpoints))) = ''did:vda:0xabc''
   \<and> list_all (\<lambda>entry. prefix ''did:vda:0xabc'' (id_svc entry))
        (orEmpty (service
          (doc (snd (addContext asciiLowerCase rev exampleDocument ''My App''
             exampleKeys exampleEndpoints)))))"
proof -
  have l: "asciiLowerCase ''did:vda:0xABC'' = ''did:vda:0xabc''"
    by code_simp
  have i: "id_doc exampleChecksumStruct = ''did:vda:0xABC''"
    by (simp add: exampleChecksumStruct_def)
  have sv: "orEmpty (service (doc exampleDocument)) = []"
    by (simp add: exampleDocument_def orEmpty_def)
  have a: "id_doc (doc exampleDocument) = ''did:vda:0xabc''"
    by (simp add: exampleDocument_def)
  have k: "examplePublicKey \<noteq> []" "length examplePublicKey = 132"
    by (simp_all add: examplePublicKey_def)
  note t = document_id_lower_case
    [where toLowerCase = asciiLowerCase and k = "Some examplePublicKey"
       and key = examplePublicKey and s = "''did:vda:0xABC''" and d = exampleChecksumStruct
       and that = exampleDocument and hash = rev and contextName = "''My App''"
       and keys = exampleKeys and endpoints = exampleEndpoints]
  note t' = document_id_lower_case
    [where toLowerCase = asciiLowerCase and k = None and d = exampleChecksumStruct]
  have c: "constructor asciiLowerCase (DocString ''did:vda:0xABC'') (Some examplePublicKey)
       = Inr exampleDocument"
    using t k by (simp add: l) (simp add: exampleDocument_def)
  have s: "constructor asciiLowerCase (DocStruct exampleChecksumStruct) None
       = Inr \<lparr>doc = exampleChecksumStruct\<lparr>id_doc := ''did:vda:0xabc''\<rparr>, errors = []\<rparr>"
    using t' by (simp add: i l)
  have m: "id_doc (doc (import_doc asciiLowerCase exampleDocument exampleChecksumStruct))
       = ''did:vda:0xabc''"
    using t by (simp add: i l)
  have d: "id_doc (doc (snd (addContext asciiLowerCase rev exampleDocument ''My App''
         exampleKeys exampleEndpoints))) = ''did:vda:0xabc''"
    using t a by simp
  have "\<forall>entry \<in> set (orEmpty (service
          (doc (snd (addContext asciiLowerCase rev exampleDocument ''My App''
             exampleKeys exampleEndpoints))))).
        entry \<in> set (orEmpty (service (doc exampleDocument)))
        \<or> prefix (id_doc (doc exampleDocument)) (id_svc entry)"
    using t example_addContext_ok by blast
  then have e: "list_all (\<lambda>entry. prefix ''did:vda:0xabc'' (id_svc entry))
        (orEmpty (service
          (doc (snd (addContext asciiLowerCase rev exampleDocument ''My App''
             exampleKeys exampleEndpoints)))))"
    by (simp add: sv a list_all_iff)
  show ?thesis
    using k c a s m example_addContext_ok d e by blast
qed

text \<open>
  The constructor and \<^verbatim>\<open>import\<close> lower-case the document id and nothing else. A struct
  that spells the DID with capitals keeps that spelling in the ids of its entries: its
  root verification method does not contain the lower-case DID.
\<close>

theorem constructor_keeps_entry_ids:
  "constructor asciiLowerCase (DocStruct exampleChecksumStruct) None
     = Inr \<lparr>doc = exampleChecksumStruct\<lparr>id_doc := ''did:vda:0xabc''\<rparr>, errors = []\<rparr>
   \<and> map id_vm (orEmpty (verificationMethod (exampleChecksumStruct\<lparr>id_doc := ''did:vda:0xabc''\<rparr>)))
     = [''did:vda:0xABC'']
   \<and> \<not> sublist ''did:vda:0xabc'' ''did:vda:0xABC''"
proof -
  have l: "asciiLowerCase ''did:vda:0xABC'' = ''did:vda:0xabc''"
    by code_simp
  have s: "constructor asciiLowerCase (DocStruct exampleChecksumStruct) None
       = Inr \<lparr>doc = exampleChecksumStruct\<lparr>id_doc := ''did:vda:0xabc''\<rparr>, errors = []\<rparr>"
    by (simp add: constructor_def) (simp add: exampleChecksumStruct_def l)
  have m: "map id_vm (orEmpty (verificationMethod
             (exampleChecksumStruct\<lparr>id_doc := ''did:vda:0xabc''\<rparr>))) = [''did:vda:0xABC'']"
    by (simp add: exampleChecksumStruct_def orEmpty_def)
  have n: "\<not> sublist ''did:vda:0xabc'' ''did:vda:0xABC''"
    by code_simp
  from s m n show ?thesis
    by blast
qed

section \<open>Signing and verifying the document proof\<close>

lemma signingKey_forms:
  "signingKey (KeyBytes bytes) = Inr (KeyBytes bytes)"
  "bytes \<noteq> map of_char ''string'' \<Longrightarrow> signingKey (KeyBuffer bytes) = Inr (KeyBuffer bytes)"
  "hex \<noteq> ''string'' \<Longrightarrow> signingKey (KeyString hex) = Inr (KeyString hex)"
  by (simp_all add: signingKey_def)

lemma signProof_signed:
  assumes "signingKey privateKey = Inr key'"
    and "signData (getProofData this) key' = Inr sig"
  shows "signProof signData this privateKey
         = (Inr (), this\<lparr>doc := (doc this)\<lparr>proof_doc := Some
              \<lparr>type_proof = ''EcdsaSecp256k1VerificationKey2019'',
               verificationMethod_proof = id_doc (doc this),
               proofPurpose = ''assertionMethod'',
               proofValue = sig\<rparr>\<rparr>\<rparr>)"
  using assms by (simp add: signProof_def Let_def)

lemma getProofData_signed:
  "getProofData (this\<lparr>doc := (doc this)\<lparr>proof_doc := p\<rparr>\<rparr>) = getProofData this"
  by (simp add: getProofData_def)

lemma verifyProof_root:
  assumes vm: "verificationMethod (doc this) = Some vms"
    and root: "find (\<lambda>entry. id_vm entry = id_doc (doc this)) vms = Some vm"
    and key: "publicKeyHex vm = Some pk" "pk \<noteq> []"
    and pr: "proof_doc (doc this) = Some p"
  shows "verifyProof utilsVerifySig this
         = Inr (utilsVerifySig (getProofData this) (proofValue p) pk)"
  using assms by (simp add: verifyProof_def verifySig_def Let_def)

lemma verifyProof_rejects:
  assumes vm: "verificationMethod (doc this) \<noteq> None"
    and pr: "proof_doc (doc this) = Some p"
    and no: "\<forall>k. \<not> utilsVerifySig (getProofData this) (proofValue p) k"
  shows "verifyProof utilsVerifySig this = Inr False"
  using assms
  by (auto simp: verifyProof_def verifySig_def Let_def split: option.splits)

lemma verifyProof_absent_methods:
  assumes "proof_doc (doc this) = Some p" and "verificationMethod (doc this) = None"
  shows "verifyProof utilsVerifySig this = Inl TypeError"
  using assms by (simp add: verifyProof_def verifySig_def Let_def)

lemma proofData_differs:
  assumes "proof_doc (doc that) = proof_doc (doc this)" and "doc that \<noteq> doc this"
  shows "getProofData that \<noteq> getProofData this"
proof
  assume "getProofData that = getProofData this"
  then have "(doc that)\<lparr>proof_doc := None\<rparr> = (doc this)\<lparr>proof_doc := None\<rparr>"
    by (simp add: getProofData_def)
  then have "(doc that)\<lparr>proof_doc := None\<rparr>\<lparr>proof_doc := proof_doc (doc this)\<rparr>
             = (doc this)\<lparr>proof_doc := None\<rparr>\<lparr>proof_doc := proof_doc (doc this)\<rparr>"
    by simp
  moreover have "(doc this)\<lparr>proof_doc := proof_doc (doc this)\<rparr> = doc this"
    by (cases "doc this") simp
  moreover have "(doc that)\<lparr>proof_doc := proof_doc (doc that)\<rparr> = doc that"
    by (cases "doc that") simp
  ultimately have "doc that = doc this"
    using assms(1) by simp
  with assms(2) show False by simp
qed

text \<open>
  C3 (amended). Let the first verification method whose id is the document id carry a
  non-empty \<^verbatim>\<open>publicKeyHex\<close>, let the key pass the test at the head of \<^verbatim>\<open>signProof\<close> and
  let \<^verbatim>\<open>signData\<close> return a signature for the key it is handed; a plain byte array, and
  every buffer and every string that does not read \<^verbatim>\<open>string\<close>, reach it unchanged. Then \<^verbatim>\<open>signProof\<close> stores
  that signature, and \<^verbatim>\<open>verifyProof\<close> right afterwards returns \<^verbatim>\<open>true\<close> when the signature
  verifies under the root public key for the document without its proof. If the signature
  verifies for no other data than that, any document that carries the same proof, still
  has a \<^verbatim>\<open>verificationMethod\<close> collection and differs from the signed one in some field
  makes \<^verbatim>\<open>verifyProof\<close> return \<^verbatim>\<open>false\<close>.
\<close>

theorem signProof_verifyProof:
  assumes "verificationMethod (doc this) = Some vms"
    and "find (\<lambda>entry. id_vm entry = id_doc (doc this)) vms = Some vm"
    and "publicKeyHex vm = Some pk" and "pk \<noteq> []"
    and "signingKey privateKey = Inr key'"
    and "signData (getProofData this) key' = Inr sig"
  shows "fst (signProof signData this privateKey) = Inr ()
     \<and> proof_doc (doc (snd (signProof signData this privateKey)))
        = Some \<lparr>type_proof = ''EcdsaSecp256k1VerificationKey2019'',
                verificationMethod_proof = id_doc (doc this),
                proofPurpose = ''assertionMethod'', proofValue = sig\<rparr>
     \<and> (utilsVerifySig (getProofData this) sig pk \<longrightarrow>
          verifyProof utilsVerifySig (snd (signProof signData this privateKey)) = Inr True)
     \<and> ((\<forall>d k. utilsVerifySig d sig k \<longrightarrow> d = getProofData this)
          \<and> proof_doc (doc that) = proof_doc (doc (snd (signProof signData this privateKey)))
          \<and> doc that \<noteq> doc (snd (signProof signData this privateKey))
          \<and> verificationMethod (doc that) \<noteq> None
          \<longrightarrow> verifyProof utilsVerifySig that = Inr False)
     \<and> signingKey (KeyBytes bytes) = Inr (KeyBytes bytes)
     \<and> (bytes \<noteq> map of_char ''string'' \<longrightarrow>
          signingKey (KeyBuffer bytes) = Inr (KeyBuffer bytes))
     \<and> (hex \<noteq> ''string'' \<longrightarrow> signingKey (KeyString hex) = Inr (KeyString hex))"
proof -
  define signed where "signed = this\<lparr>doc := (doc this)\<lparr>proof_doc := Some
              \<lparr>type_proof = ''EcdsaSecp256k1VerificationKey2019'',
               verificationMethod_proof = id_doc (doc this),
               proofPurpose = ''assertionMethod'',
               proofValue = sig\<rparr>\<rparr>\<rparr>"
  have sp: "signProof signData this privateKey = (Inr (), signed)"
    unfolding signed_def using assms(5,6) by (rule signProof_signed)
  have pd: "getProofData signed = getProofData this"
    unfolding signed_def by (rule getProofData_signed)
  have pr: "proof_doc (doc signed) = Some \<lparr>type_proof = ''EcdsaSecp256k1VerificationKey2019'',
                verificationMethod_proof = id_doc (doc this),
                proofPurpose = ''assertionMethod'', proofValue = sig\<rparr>"
    by (simp add: signed_def)
  have vm: "verificationMethod (doc signed) = Some vms"
    and root: "find (\<lambda>entry. id_vm entry = id_doc (doc signed)) vms = Some vm"
    using assms(1,2) by (simp_all add: signed_def)
  have v: "verifyProof utilsVerifySig signed = Inr (utilsVerifySig (getProofData this) sig pk)"
    using verifyProof_root [OF vm root assms(3,4) pr, of utilsVerifySig] by (simp add: pd)
  have m: "verifyProof utilsVerifySig that = Inr False"
    if bind: "\<forall>d k. utilsVerifySig d sig k \<longrightarrow> d = getProofData this"
      and same: "proof_doc (doc that) = proof_doc (doc signed)"
      and diff: "doc that \<noteq> doc signed"
      and coll: "verificationMethod (doc that) \<noteq> None"
  proof -
    have "getProofData that \<noteq> getProofData this"
      using proofData_differs [OF same diff] by (simp add: pd)
    then have "\<forall>k. \<not> utilsVerifySig (getProofData that) sig k"
      using bind by blast
    then show ?thesis
      using verifyProof_rejects [OF coll, of _ utilsVerifySig] same pr by simp
  qed
  show ?thesis
    using sp pr v m signingKey_forms by simp
qed

lemma exampleSigned_eq:
  "exampleSigned = exampleDocument\<lparr>doc := (doc exampleDocument)\<lparr>proof_doc := Some
      \<lparr>type_proof = ''EcdsaSecp256k1VerificationKey2019'',
       verificationMethod_proof = id_doc (doc exampleDocument),
       proofPurpose = ''assertionMethod'', proofValue = ''0x5167''\<rparr>\<rparr>\<rparr>"
  unfolding exampleSigned_def
  by (simp add: signProof_signed [where signData = exampleSignData and this = exampleDocument
        and privateKey = "KeyString ''0x01''" and key' = "KeyString ''0x01''"
        and sig = "''0x5167''"]
      exampleSignData_def signingKey_def)

theorem signProof_verifyProof_witness:
  "verificationMethod (doc exampleDocument)
     = Some [\<lparr>id_vm = ''did:vda:0xabc'', type_vm = ''EcdsaSecp256k1VerificationKey2019'',
              controller_vm = ''did:vda:0xabc'', publicKeyHex = Some examplePublicKey\<rparr>]
   \<and> examplePublicKey \<noteq> []
   \<and> signingKey (KeyString ''0x01'') = Inr (KeyString ''0x01'')
   \<and> exampleSignData (getProofData exampleDocument) (KeyString ''0x01'') = Inr ''0x5167''
   \<and> exampleVerifySig (getProofData exampleDocument) ''0x5167'' examplePublicKey
   \<and> proof_doc (doc exampleTampered) = proof_doc (doc exampleSigned)
   \<and> doc exampleTampered \<noteq> doc exampleSigned
   \<and> verifyProof exampleVerifySig exampleSigned = Inr True
   \<and> verifyProof exampleVerifySig exampleTampered = Inr False"
proof -
  have vm: "verificationMethod (doc exampleDocument)
     = Some [\<lparr>id_vm = ''did:vda:0xabc'', type_vm = ''EcdsaSecp256k1VerificationKey2019'',
              controller_vm = ''did:vda:0xabc'', publicKeyHex = Some examplePublicKey\<rparr>]"
    by (simp add: exampleDocument_def)
  have root: "find (\<lambda>entry. id_vm entry = id_doc (doc exampleDocument))
      [\<lparr>id_vm = ''did:vda:0xabc'', type_vm = ''EcdsaSecp256k1VerificationKey2019'',
        controller_vm = ''did:vda:0xabc'', publicKeyHex = Some examplePublicKey\<rparr>]
     = Some \<lparr>id_vm = ''did:vda:0xabc'', type_vm = ''EcdsaSecp256k1VerificationKey2019'',
        controller_vm = ''did:vda:0xabc'', publicKeyHex = Some examplePublicKey\<rparr>"
    by (simp add: exampleDocument_def)
  have key: "publicKeyHex \<lparr>id_vm = ''did:vda:0xabc'',
        type_vm = ''EcdsaSecp256k1VerificationKey2019'',
        controller_vm = ''did:vda:0xabc'', publicKeyHex = Some examplePublicKey\<rparr>
      = Some examplePublicKey"
    by simp
  have ne: "examplePublicKey \<noteq> []"
    by (simp add: examplePublicKey_def)
  have sk: "signingKey (KeyString ''0x01'') = Inr (KeyString ''0x01'')"
    by (simp add: signingKey_def)
  have sg: "exampleSignData (getProofData exampleDocument) (KeyString ''0x01'') = Inr ''0x5167''"
    by (simp add: exampleSignData_def)
  have ok: "exampleVerifySig (getProofData exampleDocument) ''0x5167'' examplePublicKey"
    by (simp add: exampleVerifySig_def)
  have bind: "\<forall>d k. exampleVerifySig d ''0x5167'' k \<longrightarrow> d = getProofData exampleDocument"
    by (simp add: exampleVerifySig_def)
  have same: "proof_doc (doc exampleTampered) = proof_doc (doc exampleSigned)"
    by (simp add: exampleTampered_def)
  have "controller (doc exampleTampered) \<noteq> controller (doc exampleSigned)"
    by (simp add: exampleTampered_def exampleSigned_eq) (simp add: exampleDocument_def)
  then have diff: "doc exampleTampered \<noteq> doc exampleSigned"
    by auto
  have coll: "verificationMethod (doc exampleTampered) \<noteq> None"
    by (simp add: exampleTampered_def exampleSigned_eq vm)
  note t = signProof_verifyProof
    [where signData = exampleSignData and this = exampleDocument
       and privateKey = "KeyString ''0x01''" and sig = "''0x5167''"
       and utilsVerifySig = exampleVerifySig and that = exampleTampered
       and bytes = "[171, 205]" and hex = "''0x01''",
     OF vm root key ne sk sg, folded exampleSigned_def]
  have a: "verifyProof exampleVerifySig exampleSigned = Inr True"
    using t ok by blast
  have b: "verifyProof exampleVerifySig exampleTampered = Inr False"
    using t bind same diff coll by blast
  show ?thesis
    using vm ne sk sg ok same diff a b by blast
qed

text \<open>
  \<^verbatim>\<open>verifySig\<close> reads the root key from \<^verbatim>\<open>publicKeyHex\<close> and returns \<^verbatim>\<open>false\<close> when that
  property is missing. A document whose root verification method publishes its key in
  another form is signed without complaint and fails verification right away, whatever
  the signature primitive answers.
\<close>

theorem verifyProof_needs_publicKeyHex:
  "find (\<lambda>entry. id_vm entry = id_doc (doc exampleKeylessDocument))
     (orEmpty (verificationMethod (doc exampleKeylessDocument))) \<noteq> None
   \<and> fst (signProof exampleSignData exampleKeylessDocument (KeyBytes [171, 205])) = Inr ()
   \<and> verifyProof (\<lambda>d s k. True)
        (snd (signProof exampleSignData exampleKeylessDocument (KeyBytes [171, 205]))) = Inr False"
proof -
  have sp: "signProof exampleSignData exampleKeylessDocument (KeyBytes [171, 205])
     = (Inr (), exampleKeylessDocument\<lparr>doc := (doc exampleKeylessDocument)\<lparr>proof_doc := Some
              \<lparr>type_proof = ''EcdsaSecp256k1VerificationKey2019'',
               verificationMethod_proof = id_doc (doc exampleKeylessDocument),
               proofPurpose = ''assertionMethod'',
               proofValue = ''0x5167''\<rparr>\<rparr>\<rparr>)"
    by (rule signProof_signed [where key' = "KeyBytes [171, 205]"])
      (simp_all add: exampleSignData_def signingKey_def)
  have id: "id_doc (doc exampleKeylessDocument) = ''did:vda:0xabc''"
    by (simp add: exampleKeylessDocument_def) (simp add: exampleDocument_def)
  have vm: "verificationMethod (doc exampleKeylessDocument)
     = Some [\<lparr>id_vm = ''did:vda:0xabc'', type_vm = ''EcdsaSecp256k1VerificationKey2019'',
              controller_vm = ''did:vda:0xabc'', publicKeyHex = None\<rparr>]"
    by (simp add: exampleKeylessDocument_def)
  have a: "find (\<lambda>entry. id_vm entry = id_doc (doc exampleKeylessDocument))
     (orEmpty (verificationMethod (doc exampleKeylessDocument))) \<noteq> None"
    by (simp add: id vm orEmpty_def)
  have b: "verifyProof (\<lambda>d s k. True)
        (snd (signProof exampleSignData exampleKeylessDocument (KeyBytes [171, 205]))) = Inr False"
    by (simp add: sp verifyProof_def verifySig_def Let_def id vm)
  show ?thesis
    using a b sp by simp
qed

lemma verifyProof_without_methods:
  "verifyProof exampleVerifySig
     (exampleSigned\<lparr>doc := (doc exampleSigned)\<lparr>verificationMethod := None\<rparr>\<rparr>) = Inl TypeError"
  by (rule verifyProof_absent_methods [where p = "\<lparr>type_proof = ''EcdsaSecp256k1VerificationKey2019'',
       verificationMethod_proof = id_doc (doc exampleDocument),
       proofPurpose = ''assertionMethod'', proofValue = ''0x5167''\<rparr>"])
    (simp_all add: exampleSigned_eq)

text \<open>
  The one key that never reaches \<^verbatim>\<open>signData\<close>: a \<^verbatim>\<open>Buffer\<close> whose bytes spell \<^verbatim>\<open>string\<close>
  compares equal to that text, and \<^verbatim>\<open>privateKey.substr\<close> is not a function.
\<close>

lemma signProof_buffer_spelling_string:
  "signProof signData this (KeyBuffer (map of_char ''string'')) = (Inl TypeError, this)"
  by (simp add: signProof_def signingKey_def)

section \<open>The notification ping and the result of send\<close>

lemma send_result:
  assumes "getOutbox = Inr outbox"
    and "outboxSend outbox did type' data message config = Inr response"
  shows "(notificationService = Some servicePing
          \<and> servicePing (recipientOf config vaultAppName) did = Inr v
          \<longrightarrow> send getOutbox outboxSend notificationService vaultAppName
                 did type' data message config
               = (Inr response,
                  if response = None then [] else [(recipientOf config vaultAppName, did)]))
     \<and> (notificationService = None
          \<longrightarrow> send getOutbox outboxSend notificationService vaultAppName
                 did type' data message config = (Inr response, []))"
  using assms
  by (auto simp: send_def recipientOf_def Let_def split: option.splits sum.splits)

text \<open>
  C5. When the outbox accepted the message and a notification service is configured,
  \<^verbatim>\<open>send\<close> returns the outbox response whatever becomes of the ping: also when the request
  to the notification server fails, after a message was sent and the recipient was
  pinged, the result of \<^verbatim>\<open>send\<close> is that response.
\<close>

theorem send_after_ping:
  assumes "getOutbox = Inr outbox"
    and "outboxSend outbox did type' data message config = Inr response"
  shows "fst (send getOutbox outboxSend (Some (ping post)) vaultAppName
                did type' data message config) = Inr response
     \<and> (response \<noteq> None \<and> post (recipientOf config vaultAppName) did = Inl e
          \<longrightarrow> send getOutbox outboxSend (Some (ping post)) vaultAppName
                 did type' data message config
               = (Inr response, [(recipientOf config vaultAppName, did)]))"
proof -
  have "\<exists>v. ping post (recipientOf config vaultAppName) did = Inr v"
    by (cases "post (recipientOf config vaultAppName) did") (auto simp: ping_def)
  then obtain v where v: "ping post (recipientOf config vaultAppName) did = Inr v"
    by blast
  have "send getOutbox outboxSend (Some (ping post)) vaultAppName did type' data message config
        = (Inr response,
           if response = None then [] else [(recipientOf config vaultAppName, did)])"
    using send_result
        [where getOutbox = getOutbox and outboxSend = outboxSend and outbox = outbox
           and did = did and type' = type' and data = data and message = message
           and config = config and response = response
           and notificationService = "Some (ping post)" and servicePing = "ping post"
           and v = v and vaultAppName = vaultAppName, OF assms] v
    by simp
  then show ?thesis
    by simp
qed

theorem send_after_ping_witness:
  "send (Inr ()) (\<lambda>outbox did type' data message config. Inr (Some ''sent''))
     (Some (ping (\<lambda>context did. Inl (Error ''Network Error'') :: jsError + unit)))
     ''Verida: Vault''
     ''did:vda:0xdef'' ''inbox/type/message'' () ''Hello'' \<lparr>recipientContextName = None\<rparr>
   = (Inr (Some ''sent''), [(''Verida: Vault'', ''did:vda:0xdef'')])"
proof -
  have r: "recipientOf \<lparr>recipientContextName = None\<rparr> ''Verida: Vault'' = ''Verida: Vault''"
    by (simp add: recipientOf_def)
  show ?thesis
    using send_after_ping
      [where getOutbox = "Inr ()"
         and outboxSend = "\<lambda>outbox did type' data message config. Inr (Some ''sent'')"
         and outbox = "()" and response = "Some ''sent''"
         and post = "\<lambda>context did. Inl (Error ''Network Error'') :: jsError + unit"
         and e = "Error ''Network Error''"
         and vaultAppName = "''Verida: Vault''" and did = "''did:vda:0xdef''"
         and type' = "''inbox/type/message''" and data = "()" and message = "''Hello''"
         and config = "\<lparr>recipientContextName = None\<rparr>"]
    by (simp add: r)
qed

section \<open>Opening a database with an unregistered engine type\<close>

lemma lookup_DATABASE_ENGINES_missing:
  assumes "engineType \<noteq> ''VeridaDatabase''" and "engineType \<notin> set objectPrototypeKeys"
  shows "lookupProperty DATABASE_ENGINES engineType = Missing"
  using assms by (simp add: lookupProperty_def DATABASE_ENGINES_def)

text \<open>
  C6 (amended). Let no engine be cached for the DID, and let the configuration that the
  DID context manager resolves for it declare a database engine type that is neither
  registered nor the name of a member of \<^verbatim>\<open>Object.prototype\<close>. Then \<^verbatim>\<open>getDatabaseEngine\<close>
  fails with the error \<^verbatim>\<open>Unsupported database engine type specified\<close>, the cache is
  unchanged, and the one call made before the failure is that resolution of the
  configuration: no engine is constructed and no account is connected.
\<close>

theorem getDatabaseEngine_unsupported_type:
  assumes "lookupProperty (databaseEngines this) did = Missing"
    and "did \<noteq> []"
    and "getDIDContextConfig did (contextName_ctx this) createContext = Inr contextConfig"
    and "type_ep (databaseServer (services contextConfig)) \<noteq> ''VeridaDatabase''"
    and "type_ep (databaseServer (services contextConfig)) \<notin> set objectPrototypeKeys"
  shows "getDatabaseEngine accountDid getDIDContextConfig newEngine connectAccount
           this did createContext
         = (Inl (Error (''Unsupported database engine type specified: ''
                         @ type_ep (databaseServer (services contextConfig)))),
            this,
            [GetDIDContextConfig did (contextName_ctx this) createContext])"
  using assms(1,2,3) lookup_DATABASE_ENGINES_missing [OF assms(4,5)]
  by (simp add: getDatabaseEngine_def getContextConfig_def Let_def)

theorem getDatabaseEngine_unsupported_type_witness:
  "lookupProperty (databaseEngines exampleContext) ''did:vda:0xabc'' = Missing
   \<and> type_ep (databaseServer (services exampleConfig)) \<noteq> ''VeridaDatabase''
   \<and> type_ep (databaseServer (services exampleConfig)) \<notin> set objectPrototypeKeys
   \<and> getDatabaseEngine Inr (\<lambda>did name forceCreate. Inr exampleConfig)
        (\<lambda>engine name uri. uri) (\<lambda>engine account. Inr engine)
        exampleContext ''did:vda:0xabc'' None
      = (Inl (Error ''Unsupported database engine type specified: CouchDatabase''),
         exampleContext,
         [GetDIDContextConfig ''did:vda:0xabc'' ''My App'' None])"
proof -
  have a: "lookupProperty (databaseEngines exampleContext) ''did:vda:0xabc'' = Missing"
    by (simp add: lookupProperty_def exampleContext_def objectPrototypeKeys_def)
  have b: "(''did:vda:0xabc'' :: string) \<noteq> []"
    by simp
  have c: "(\<lambda>did name forceCreate. Inr exampleConfig)
             ''did:vda:0xabc'' (contextName_ctx exampleContext) None = Inr exampleConfig"
    by simp
  have t: "type_ep (databaseServer (services exampleConfig)) = ''CouchDatabase''"
    by (simp add: exampleConfig_def)
  have d: "type_ep (databaseServer (services exampleConfig)) \<noteq> ''VeridaDatabase''"
    by (simp add: t)
  have e: "type_ep (databaseServer (services exampleConfig)) \<notin> set objectPrototypeKeys"
    by (simp add: t objectPrototypeKeys_def)
  have n: "contextName_ctx exampleContext = ''My App''"
    by (simp add: exampleContext_def)
  note r = getDatabaseEngine_unsupported_type
    [where accountDid = Inr and newEngine = "\<lambda>engine name uri. uri"
       and connectAccount = "\<lambda>engine account. Inr engine"
       and getDIDContextConfig = "\<lambda>did name forceCreate. Inr exampleConfig",
     OF a b c d e]
  have "getDatabaseEngine Inr (\<lambda>did name forceCreate. Inr exampleConfig)
        (\<lambda>engine name uri. uri) (\<lambda>engine account. Inr engine)
        exampleContext ''did:vda:0xabc'' None
      = (Inl (Error ''Unsupported database engine type specified: CouchDatabase''),
         exampleContext,
         [GetDIDContextConfig ''did:vda:0xabc'' ''My App'' None])"
    using r by (simp add: t n)
  then show ?thesis
    using a d e by blast
qed

text \<open>
  The engine type is read from the resolved configuration, so the resolution comes first:
  when the call fails for an unregistered type, the DID context manager has already been
  asked for the configuration.
\<close>

theorem getDatabaseEngine_resolves_before_failing:
  "fst (getDatabaseEngine Inr (\<lambda>did name forceCreate. Inr exampleConfig)
         (\<lambda>engine name uri. uri) (\<lambda>engine account. Inr engine)
         exampleContext ''did:vda:0xabc'' None)
     = Inl (Error ''Unsupported database engine type specified: CouchDatabase'')
   \<and> snd (snd (getDatabaseEngine Inr (\<lambda>did name forceCreate. Inr exampleConfig)
         (\<lambda>engine name uri. uri) (\<lambda>engine account. Inr engine)
         exampleContext ''did:vda:0xabc'' None))
     = [GetDIDContextConfig ''did:vda:0xabc'' ''My App'' None]
   \<and> snd (snd (getDatabaseEngine Inr (\<lambda>did name forceCreate. Inr exampleConfig)
         (\<lambda>engine name uri. uri) (\<lambda>engine account. Inr engine)
         exampleContext ''did:vda:0xabc'' None)) \<noteq> []"
  by (simp add: getDatabaseEngine_def getContextConfig_def Let_def lookupProperty_def
      exampleContext_def exampleConfig_def objectPrototypeKeys_def DATABASE_ENGINES_def)

section \<open>Caching of authentication contexts\<close>
















end
